theory Spec2Isabelle
  imports Complex_Main
begin

section \<open>Numbers\<close>

text \<open>
  A JavaScript \<^verbatim>\<open>number\<close> that is finite is modelled as a \<^typ>\<open>real\<close>. The
  compounding functions and the portfolio totals are modelled in the exact arithmetic of
  the reals: there the rounding of IEEE 754 doubles, overflow to \<^verbatim>\<open>Infinity\<close> and
  the sign of zero are not modelled, and every equation about them is an equation of
  exact arithmetic. The functions of which a claim asserts an exact identity between
  computed numbers (the growth rate of \<^verbatim>\<open>lib/utils.ts\<close> and the allocation
  percentages) take the rounding of each arithmetic operation as a parameter \<open>fl\<close>:
  \<open>double\<close> below is the rounding of the doubles, and the identity function is exact
  arithmetic.

  A computation that may leave the finite numbers returns a \<^typ>\<open>real option\<close>:
  \<open>None\<close> says that some value computed on the way is \<^verbatim>\<open>NaN\<close> or
  \<^verbatim>\<open>\<plusminus>Infinity\<close>. The three are kept as one outcome; the code below never
  compares such a value nor tests it for truth.
\<close>

text \<open>
  \<^verbatim>\<open>Math.pow(base, exponent)\<close> and the operator \<^verbatim>\<open>**\<close> on finite arguments
  (ECMAScript, Number::exponentiate): a zero exponent gives 1; a zero base gives 0 for a
  positive exponent and \<^verbatim>\<open>Infinity\<close> for a negative one; a negative base gives
  \<^verbatim>\<open>NaN\<close> unless the exponent is an integer.
\<close>

definition Math_pow :: "real \<Rightarrow> real \<Rightarrow> real option" where
  "Math_pow base exponent =
     (if exponent = 0 then Some 1
      else if base = 0 then (if 0 < exponent then Some 0 else None)
      else if 0 < base then Some (base powr exponent)
      else if exponent = of_int \<lfloor>exponent\<rfloor>
      then Some (if even \<lfloor>exponent\<rfloor> then \<bar>base\<bar> powr exponent
                 else - (\<bar>base\<bar> powr exponent))
      else None)"

text \<open>\<^verbatim>\<open>a + b\<close> where either side may already be \<^verbatim>\<open>NaN\<close> or infinite.\<close>

definition num_add :: "real option \<Rightarrow> real option \<Rightarrow> real option" where
  "num_add a b = (case a of None \<Rightarrow> None
                  | Some x \<Rightarrow> (case b of None \<Rightarrow> None | Some y \<Rightarrow> Some (x + y)))"

text \<open>
  IEEE 754 binary64, rounding to nearest with ties to even: a number \<open>x\<close> with
  \<open>2\<^sup>e \<le> \<bar>x\<bar> < 2\<^bsup>e+1\<^esup>\<close> is rounded to a multiple of \<open>2\<^bsup>e-52\<^esup>\<close>. The range of
  the exponent is not bounded, so overflow and subnormal numbers are not modelled.
\<close>

definition round_half_even :: "real \<Rightarrow> int" where
  "round_half_even y =
     (let f = \<lfloor>y\<rfloor>; d = y - of_int f
      in if d < 1 / 2 then f else if 1 / 2 < d then f + 1 else if even f then f else f + 1)"

definition double :: "real \<Rightarrow> real" where
  "double x =
     (if x = 0 then 0
      else (let ulp = 2 powi (\<lfloor>log 2 \<bar>x\<bar>\<rfloor> - 52)
            in of_int (round_half_even (x / ulp)) * ulp))"

text \<open>
  A number that may not be finite, where the code goes on computing with it. A zero is
  \<^verbatim>\<open>+0\<close>.
\<close>

datatype number = Finite real | PosInfinity | NegInfinity | NaN

text \<open>\<^verbatim>\<open>x / y\<close> and \<^verbatim>\<open>x - y\<close> on finite operands, with the rounding \<open>fl\<close>.\<close>

definition Number_divide :: "(real \<Rightarrow> real) \<Rightarrow> real \<Rightarrow> real \<Rightarrow> number" where
  "Number_divide fl x y =
     (if y = 0 then (if x = 0 then NaN else if 0 < x then PosInfinity else NegInfinity)
      else Finite (fl (x / y)))"

definition Number_subtract :: "(real \<Rightarrow> real) \<Rightarrow> number \<Rightarrow> real \<Rightarrow> number" where
  "Number_subtract fl x y =
     (case x of Finite v \<Rightarrow> Finite (fl (v - y)) | PosInfinity \<Rightarrow> PosInfinity
      | NegInfinity \<Rightarrow> NegInfinity | NaN \<Rightarrow> NaN)"

text \<open>
  \<^verbatim>\<open>Math.pow\<close> on all numbers (ECMAScript, Number::exponentiate). On finite
  arguments it is \<open>Math_pow\<close>, rounded: the standard leaves the last bits of the power
  to the implementation, and the model rounds the exact power, which for the exponent 1
  is the base itself.
\<close>

definition odd_integer :: "real \<Rightarrow> bool" where
  "odd_integer e = (e = of_int \<lfloor>e\<rfloor> \<and> odd \<lfloor>e\<rfloor>)"

definition Number_exponentiate :: "(real \<Rightarrow> real) \<Rightarrow> number \<Rightarrow> number \<Rightarrow> number" where
  "Number_exponentiate fl base exponent =
     (case exponent of
        NaN \<Rightarrow> NaN
      | Finite e \<Rightarrow>
          if e = 0 then Finite 1
          else (case base of
                  NaN \<Rightarrow> NaN
                | PosInfinity \<Rightarrow> if 0 < e then PosInfinity else Finite 0
                | NegInfinity \<Rightarrow>
                    if 0 < e then (if odd_integer e then NegInfinity else PosInfinity)
                    else Finite 0
                | Finite b \<Rightarrow>
                    (case Math_pow b e of
                       Some p \<Rightarrow> Finite (fl p)
                     | None \<Rightarrow> if b = 0 then PosInfinity else NaN))
      | PosInfinity \<Rightarrow>
          (case base of
             NaN \<Rightarrow> NaN
           | Finite b \<Rightarrow>
               if 1 < \<bar>b\<bar> then PosInfinity else if \<bar>b\<bar> = 1 then NaN else Finite 0
           | PosInfinity \<Rightarrow> PosInfinity
           | NegInfinity \<Rightarrow> PosInfinity)
      | NegInfinity \<Rightarrow>
          (case base of
             NaN \<Rightarrow> NaN
           | Finite b \<Rightarrow>
               if 1 < \<bar>b\<bar> then Finite 0 else if \<bar>b\<bar> = 1 then NaN else PosInfinity
           | PosInfinity \<Rightarrow> Finite 0
           | NegInfinity \<Rightarrow> Finite 0))"

section \<open>Compounding\<close>

text \<open>
  \<^verbatim>\<open>lib/utils/calculations.ts\<close>:
  \<^verbatim>\<open>return currentValue * Math.pow(1 + growthRate / 100, years);\<close>
  The rate is an annual percentage, as the column \<^verbatim>\<open>growth_rate DECIMAL(5,2)\<close> stores it.
\<close>

definition calculateFutureValue :: "real \<Rightarrow> real \<Rightarrow> real \<Rightarrow> real option" where
  "calculateFutureValue currentValue growthRate years =
     map_option (\<lambda>p. currentValue * p) (Math_pow (1 + growthRate / 100) years)"

text \<open>
  \<^verbatim>\<open>lib/utils.ts\<close>, which the dashboard's asset cards import:
  \<^verbatim>\<open>return presentValue * Math.pow(1 + rate, years)\<close>
  The rate is a fraction.
\<close>

definition utils_calculateFutureValue :: "real \<Rightarrow> real \<Rightarrow> real \<Rightarrow> real option" where
  "utils_calculateFutureValue presentValue rate years =
     map_option (\<lambda>p. presentValue * p) (Math_pow (1 + rate) years)"

text \<open>
  The same function of \<^verbatim>\<open>lib/utils.ts\<close> with the rounding \<open>fl\<close> of its one
  addition, its power and its one multiplication.
\<close>

definition utils_calculateFutureValue_rounded ::
  "(real \<Rightarrow> real) \<Rightarrow> real \<Rightarrow> real \<Rightarrow> real \<Rightarrow> real option" where
  "utils_calculateFutureValue_rounded fl presentValue rate years =
     map_option (\<lambda>p. fl (presentValue * fl p)) (Math_pow (fl (1 + rate)) years)"

text \<open>
  \<^verbatim>\<open>lib/utils.ts\<close>:
  \<^verbatim>\<open>return Math.pow(futureValue / currentValue, 1 / years) - 1\<close>
  A division by zero gives an infinity or \<^verbatim>\<open>NaN\<close>, with which the power goes on:
  \<^verbatim>\<open>calculateGrowthRate(100, 50, 0)\<close> is \<^verbatim>\<open>Math.pow(0.5, Infinity) - 1\<close>, that
  is -1.
\<close>

definition calculateGrowthRate :: "(real \<Rightarrow> real) \<Rightarrow> real \<Rightarrow> real \<Rightarrow> real \<Rightarrow> number" where
  "calculateGrowthRate fl currentValue futureValue years =
     Number_subtract fl
       (Number_exponentiate fl (Number_divide fl futureValue currentValue)
          (Number_divide fl 1 years)) 1"

section \<open>Portfolio totals\<close>

text \<open>
  The fields of \<^verbatim>\<open>interface Asset\<close> that the calculations read. The interface
  declares \<^verbatim>\<open>asset_type\<close> as one of five literals; the column is a
  \<^verbatim>\<open>VARCHAR(50)\<close>, and at run time the field is a string.
\<close>

record Asset =
  asset_type :: string
  current_value :: real
  growth_rate :: real
  projection_years :: real

definition Asset_types :: "string list" where
  "Asset_types = [''residence'', ''rrsp'', ''tfsa'', ''investment'', ''savings'']"

record PortfolioTotals =
  totalCurrentValue :: real
  totalFutureValue :: "real option"
  totalProjectedGrowth :: "real option"
  overallGrowthRate :: "real option"

text \<open>
  \<^verbatim>\<open>calculatePortfolioTotals\<close> of \<^verbatim>\<open>lib/utils/calculations.ts\<close>. Each
  \<^verbatim>\<open>assets.reduce((sum, asset) => ..., 0)\<close> is a left fold from 0. The last field is
  \<^verbatim>\<open>totalCurrentValue > 0 ? ((totalFutureValue / totalCurrentValue) ** (1 / 10) - 1) * 100 : 0\<close>.
\<close>

definition calculatePortfolioTotals :: "Asset list \<Rightarrow> PortfolioTotals" where
  "calculatePortfolioTotals assets =
     (let tcv = foldl (\<lambda>sum asset. sum + current_value asset) 0 assets;
          tfv = foldl (\<lambda>sum asset. num_add sum
                   (calculateFutureValue (current_value asset) (growth_rate asset)
                      (projection_years asset))) (Some 0) assets;
          tpg = map_option (\<lambda>fv. fv - tcv) tfv
      in \<lparr> totalCurrentValue = tcv,
           totalFutureValue = tfv,
           totalProjectedGrowth = tpg,
           overallGrowthRate =
             (if 0 < tcv
              then map_option (\<lambda>p. (p - 1) * 100)
                     (Option.bind tfv (\<lambda>fv. Math_pow (fv / tcv) (1 / 10)))
              else Some 0) \<rparr>)"

section \<open>Asset allocation\<close>

text \<open>
  The names that every object literal inherits from \<^verbatim>\<open>Object.prototype\<close>. For such
  a name \<^verbatim>\<open>obj[name]\<close> is the inherited member (a function, or the prototype itself
  for \<^verbatim>\<open>__proto__\<close>), which is truthy, whether or not \<^verbatim>\<open>obj\<close> has a property
  of that name of its own.
\<close>

definition Object_prototype_keys :: "string list" where
  "Object_prototype_keys =
     [''constructor'', ''__defineGetter__'', ''__defineSetter__'', ''hasOwnProperty'',
      ''__lookupGetter__'', ''__lookupSetter__'', ''isPrototypeOf'',
      ''propertyIsEnumerable'', ''toString'', ''valueOf'', ''__proto__'',
      ''toLocaleString'']"

text \<open>
  What \<^verbatim>\<open>getCategoryRiskLevel\<close> can return: one of the three tiers of its declared
  return type, or \<open>inherited k\<close>, the member \<open>k\<close> of \<^verbatim>\<open>Object.prototype\<close>, which
  is none of the three.
\<close>

datatype risk_level = low | medium | high | inherited string

definition riskMap :: "(string \<times> risk_level) list" where
  "riskMap =
     [(''residence'', medium), (''rrsp'', medium), (''tfsa'', medium),
      (''savings'', low), (''investment'', high)]"

text \<open>
  \<^verbatim>\<open>return riskMap[category] || 'medium';\<close> The lookup finds the table's own entry,
  else the inherited member, else \<^verbatim>\<open>undefined\<close>; only \<^verbatim>\<open>undefined\<close> is falsy.
\<close>

definition getCategoryRiskLevel :: "string \<Rightarrow> risk_level" where
  "getCategoryRiskLevel category =
     (case map_of riskMap category of
        Some r \<Rightarrow> r
      | None \<Rightarrow> if category \<in> set Object_prototype_keys then inherited category
                else medium)"

text \<open>
  The accumulator of the second \<^verbatim>\<open>reduce\<close> is an object from category to
  \<^verbatim>\<open>{ value, count }\<close>, here an association list in the order in which the
  categories were first seen, each entry a pair of the value and the count.
  \<open>add_to\<close> is \<^verbatim>\<open>acc[category].value += asset.current_value; acc[category].count += 1\<close>
  on an entry of the accumulator's own, the addition rounded by \<open>fl\<close>.
\<close>

fun add_to ::
  "(real \<Rightarrow> real) \<Rightarrow> string \<Rightarrow> real \<Rightarrow> (string \<times> real \<times> nat) list \<Rightarrow> (string \<times> real \<times> nat) list" where
  "add_to fl category v [] = []"
| "add_to fl category v ((k, d) # acc) =
     (if k = category then (k, (fl (fst d + v), snd d + 1)) # acc
      else (k, d) # add_to fl category v acc)"

text \<open>
  One step of the \<^verbatim>\<open>reduce\<close>. When the category names a member of
  \<^verbatim>\<open>Object.prototype\<close>, \<^verbatim>\<open>!acc[category]\<close> is false, no entry is created, and the
  two updates land on the inherited object: the accumulator is unchanged.
\<close>

definition allocation_step ::
  "(real \<Rightarrow> real) \<Rightarrow> (string \<times> real \<times> nat) list \<Rightarrow> Asset \<Rightarrow> (string \<times> real \<times> nat) list" where
  "allocation_step fl acc asset =
     (let category = asset_type asset in
      if category \<in> set Object_prototype_keys then acc
      else add_to fl category (current_value asset)
             (if map_of acc category = None then acc @ [(category, (0, 0))] else acc))"

text \<open>The value that the accumulator holds for a category, 0 when it has no entry.\<close>

definition val_of :: "(string \<times> real \<times> nat) list \<Rightarrow> string \<Rightarrow> real" where
  "val_of acc k = (case map_of acc k of None \<Rightarrow> 0 | Some d \<Rightarrow> fst d)"

text \<open>
  \<^verbatim>\<open>Object.entries\<close> lists first the keys that are array indices (the decimal
  numerals of the integers from 0 to \<open>2\<^sup>3\<^sup>2 - 2\<close>, without a leading zero) in ascending
  order, then the other keys in the order of their creation.
\<close>

definition digit_value :: "char \<Rightarrow> nat option" where
  "digit_value c =
     map_of [(CHR ''0'', 0), (CHR ''1'', 1), (CHR ''2'', 2), (CHR ''3'', 3), (CHR ''4'', 4),
             (CHR ''5'', 5), (CHR ''6'', 6), (CHR ''7'', 7), (CHR ''8'', 8), (CHR ''9'', 9)] c"

fun decimal :: "nat \<Rightarrow> string \<Rightarrow> nat option" where
  "decimal n [] = Some n"
| "decimal n (c # cs) =
     (case digit_value c of None \<Rightarrow> None | Some d \<Rightarrow> decimal (10 * n + d) cs)"

definition array_index :: "string \<Rightarrow> nat option" where
  "array_index key =
     (if key = [] \<or> (hd key = CHR ''0'' \<and> key \<noteq> ''0'') then None
      else (case decimal 0 key of
              None \<Rightarrow> None
            | Some n \<Rightarrow> if n < 4294967295 then Some n else None))"

definition Object_entries :: "(string \<times> 'a) list \<Rightarrow> (string \<times> 'a) list" where
  "Object_entries obj =
     sort_key (\<lambda>entry. case array_index (fst entry) of None \<Rightarrow> 0 | Some n \<Rightarrow> n)
       (filter (\<lambda>entry. array_index (fst entry) \<noteq> None) obj)
     @ filter (\<lambda>entry. array_index (fst entry) = None) obj"

text \<open>\<^verbatim>\<open>interface AssetAllocation\<close>; its field \<^verbatim>\<open>value\<close> is called \<open>val\<close> here.\<close>

record AssetAllocation =
  category :: string
  val :: real
  percentage :: real
  risk_level :: risk_level

text \<open>
  \<^verbatim>\<open>calculateAssetAllocation\<close> of \<^verbatim>\<open>lib/ai/context.ts\<close>, every addition,
  division and multiplication rounded by \<open>fl\<close>. The percentage is
  \<^verbatim>\<open>totalValue > 0 ? (data.value / totalValue) * 100 : 0\<close>.
\<close>

definition calculateAssetAllocation :: "(real \<Rightarrow> real) \<Rightarrow> Asset list \<Rightarrow> AssetAllocation list" where
  "calculateAssetAllocation fl assets =
     (let totalValue = foldl (\<lambda>sum asset. fl (sum + current_value asset)) 0 assets;
          allocation = foldl (allocation_step fl) [] assets
      in map (\<lambda>(c, data).
               \<lparr> category = c,
                 val = fst data,
                 percentage =
                   (if 0 < totalValue then fl (fl (fst data / totalValue) * 100) else 0),
                 risk_level = getCategoryRiskLevel c \<rparr>) (Object_entries allocation))"

section \<open>Client context\<close>

text \<open>
  The calendar fields that \<^verbatim>\<open>getFullYear()\<close>, \<^verbatim>\<open>getMonth()\<close> (0 to 11) and
  \<^verbatim>\<open>getDate()\<close> report for a \<^verbatim>\<open>Date\<close>.
\<close>

record JSDate =
  getFullYear :: int
  getMonth :: int
  getDate :: int

text \<open>
  A \<^verbatim>\<open>Date\<close> holds an instant, in milliseconds since 1970-01-01T00:00Z. The day
  number of a date of the proleptic Gregorian calendar, counted from 1970-01-01, and
  the date of a day number (ECMAScript's MakeDay, YearFromTime, MonthFromTime and
  DateFromTime), both with the months numbered from 1.
\<close>

definition days_from_civil :: "int \<Rightarrow> int \<Rightarrow> int \<Rightarrow> int" where
  "days_from_civil y m d =
     (let y' = (if m \<le> 2 then y - 1 else y);
          era = y' div 400;
          yoe = y' - era * 400;
          doy = (153 * (if 2 < m then m - 3 else m + 9) + 2) div 5 + d - 1;
          doe = yoe * 365 + yoe div 4 - yoe div 100 + doy
      in era * 146097 + doe - 719468)"

definition civil_from_days :: "int \<Rightarrow> int \<times> int \<times> int" where
  "civil_from_days days =
     (let z = days + 719468;
          era = z div 146097;
          doe = z - era * 146097;
          yoe = (doe - doe div 1460 + doe div 36524 - doe div 146096) div 365;
          doy = doe - (365 * yoe + yoe div 4 - yoe div 100);
          mp = (5 * doy + 2) div 153;
          d = doy - (153 * mp + 2) div 5 + 1;
          m = (if mp < 10 then mp + 3 else mp - 9)
      in (yoe + era * 400 + (if m \<le> 2 then 1 else 0), m, d))"

text \<open>
  The environment of \<^verbatim>\<open>new Date()\<close> and of the getters: the instant of the clock,
  and the offset of the local time zone from UTC, in minutes, at each instant (the
  negated \<^verbatim>\<open>getTimezoneOffset()\<close>; -240 in Toronto in summer).
\<close>

record Clock =
  now :: int
  offset :: "int \<Rightarrow> int"

definition local_fields :: "Clock \<Rightarrow> int \<Rightarrow> JSDate" where
  "local_fields clock t =
     (case civil_from_days ((t + offset clock t * 60000) div 86400000) of
        (y, m, d) \<Rightarrow> \<lparr> getFullYear = y, getMonth = m - 1, getDate = d \<rparr>)"

text \<open>
  \<^verbatim>\<open>new Date(birthDate)\<close> for the string of a \<^verbatim>\<open>DATE\<close> column,
  \<^verbatim>\<open>'YYYY-MM-DD'\<close>: a date-only string is midnight UTC of that day. \<open>None\<close> is
  the invalid date, and also every string of another form, which this model does
  not parse.
\<close>

definition days_in_month :: "int \<Rightarrow> int \<Rightarrow> int" where
  "days_in_month y m =
     (if m = 2 then (if y mod 4 = 0 \<and> (y mod 100 \<noteq> 0 \<or> y mod 400 = 0) then 29 else 28)
      else if m = 4 \<or> m = 6 \<or> m = 9 \<or> m = 11 then 30 else 31)"

definition parse_date_only :: "string \<Rightarrow> (int \<times> int \<times> int) option" where
  "parse_date_only text =
     (if length text = 10 \<and> text ! 4 = CHR ''-'' \<and> text ! 7 = CHR ''-''
      then (case (decimal 0 (take 4 text), decimal 0 (take 2 (drop 5 text)),
                  decimal 0 (drop 8 text)) of
              (Some y, Some m, Some d) \<Rightarrow>
                if 1 \<le> m \<and> m \<le> 12 \<and> 1 \<le> d \<and> int d \<le> days_in_month (int y) (int m)
                then Some (int y, int m, int d) else None
            | _ \<Rightarrow> None)
      else None)"

definition Date_parse :: "string \<Rightarrow> int option" where
  "Date_parse text =
     map_option (\<lambda>(y, m, d). days_from_civil y m d * 86400000) (parse_date_only text)"

text \<open>
  \<^verbatim>\<open>calculateAge\<close> of \<^verbatim>\<open>lib/ai/context.ts\<close>. \<open>None\<close> is \<^verbatim>\<open>NaN\<close>, the age
  of an invalid date.
\<close>

definition calculateAge :: "Clock \<Rightarrow> string \<Rightarrow> int option" where
  "calculateAge clock birthDate =
     (case Date_parse birthDate of
        None \<Rightarrow> None
      | Some instant \<Rightarrow>
          (let today = local_fields clock (now clock);
               birth = local_fields clock instant;
               age = getFullYear today - getFullYear birth;
               monthDiff = getMonth today - getMonth birth
           in Some (if monthDiff < 0 \<or> (monthDiff = 0 \<and> getDate today < getDate birth)
                    then age - 1 else age)))"

text \<open>
  The rows nested in a client row by
  \<^verbatim>\<open>select(`*, assets (*), income_sources (*), expenses (*), financial_goals (*)`)\<close>,
  with the columns the builder reads and the activity flag of an income source.
  A \<^verbatim>\<open>monthly_amount\<close> may be \<^verbatim>\<open>null\<close>.
\<close>

record IncomeSource =
  monthly_amount :: "real option"
  is_active :: bool

record Expense =
  monthly_amount :: "real option"

record FinancialGoal =
  name :: string

record ClientRow =
  id' :: string
  advisor_id :: "string option"
  name :: string
  date_of_birth :: "string option"
  risk_tolerance :: string
  annual_income :: "real option"
  financial_goals :: "FinancialGoal list option"
  assets :: "Asset list option"
  income_sources :: "IncomeSource list option"
  expenses :: "Expense list option"

record Liability =
  client_id :: string
  current_balance :: real

text \<open>
  The Supabase client of one request: the authenticated user of
  \<^verbatim>\<open>supabase.auth.getUser()\<close>, and the tables it queries.
\<close>

record Supabase =
  user :: "string option"
  clients :: "ClientRow list"
  liabilities :: "Liability list"

text \<open>
  \<^verbatim>\<open>from('clients').select(...).eq('id', clientId)\<close> under the row-level security
  policy \<^verbatim>\<open>FOR ALL USING (advisor_id = auth.uid())\<close> of the table: the rows of the
  requesting advisor with that id. A \<^verbatim>\<open>NULL\<close> on either side of the policy's
  equation hides the row.
\<close>

definition select_client :: "Supabase \<Rightarrow> string \<Rightarrow> ClientRow list" where
  "select_client supabase clientId =
     filter (\<lambda>row. user supabase \<noteq> None \<and> advisor_id row = user supabase
                  \<and> id' row = clientId) (clients supabase)"

text \<open>\<^verbatim>\<open>.single()\<close>: the row when there is exactly one, else \<^verbatim>\<open>data: null\<close>.\<close>

fun single :: "'a list \<Rightarrow> 'a option" where
  "single [row] = Some row"
| "single rows = None"

text \<open>
  \<^verbatim>\<open>x || 0\<close> for a number or \<^verbatim>\<open>null\<close>, and \<^verbatim>\<open>xs || []\<close>. A string is
  falsy when it is missing or empty, and \<open>or_string x d\<close> is \<^verbatim>\<open>x || d\<close>.
\<close>

definition falsy :: "string option \<Rightarrow> bool" where
  "falsy x = (x = None \<or> x = Some [])"

definition or_string :: "string option \<Rightarrow> string \<Rightarrow> string" where
  "or_string x d = (case x of None \<Rightarrow> d | Some v \<Rightarrow> if v = [] then d else v)"

definition or_zero :: "real option \<Rightarrow> real" where
  "or_zero x = (case x of None \<Rightarrow> 0 | Some v \<Rightarrow> v)"

definition or_empty :: "'a list option \<Rightarrow> 'a list" where
  "or_empty xs = (case xs of None \<Rightarrow> [] | Some ys \<Rightarrow> ys)"

record ContextClient =
  id' :: string
  name :: string
  age :: "int option option"
  risk_tolerance :: string
  annual_income :: "real option"
  financial_goals :: "string list"

record ContextPortfolio =
  total_assets :: real
  total_liabilities :: real
  net_worth :: real
  asset_allocation :: "AssetAllocation list"
  monthly_cash_flow :: real

record ClientContext =
  client :: ContextClient
  portfolio :: ContextPortfolio
  assets :: "Asset list"

datatype error = ClientNotFound

text \<open>
  \<^verbatim>\<open>ContextBuilder.buildClientContext\<close> of \<^verbatim>\<open>lib/ai/context.ts\<close>.
  \<^verbatim>\<open>if (!client) throw new Error('Client not found')\<close> is the result
  \<open>Inl ClientNotFound\<close>. The two cash-flow sums are
  \<^verbatim>\<open>rows?.reduce((sum, row) => sum + (row.monthly_amount || 0), 0) || 0\<close>.
  The age is \<^verbatim>\<open>undefined\<close>, here \<open>None\<close>, when the date of birth is missing or
  empty. The clock is the parameter \<open>today\<close>.
\<close>

definition buildClientContext :: "Clock \<Rightarrow> string \<Rightarrow> Supabase \<Rightarrow> error + ClientContext" where
  "buildClientContext today clientId supabase =
     (case single (select_client supabase clientId) of
        None \<Rightarrow> Inl ClientNotFound
      | Some row \<Rightarrow>
          (let portfolioTotals = calculatePortfolioTotals (or_empty (ClientRow.assets row));
               assetAllocation =
                 calculateAssetAllocation double (or_empty (ClientRow.assets row));
               monthlyIncome =
                 (case income_sources row of
                    None \<Rightarrow> 0
                  | Some incomes \<Rightarrow>
                      foldl (\<lambda>sum income. sum + or_zero (IncomeSource.monthly_amount income))
                        0 incomes);
               monthlyExpenses =
                 (case expenses row of
                    None \<Rightarrow> 0
                  | Some es \<Rightarrow>
                      foldl (\<lambda>sum expense. sum + or_zero (Expense.monthly_amount expense))
                        0 es)
           in Inr \<lparr> client =
                      \<lparr> ContextClient.id' = ClientRow.id' row,
                        ContextClient.name = ClientRow.name row,
                        age =
                          (if falsy (date_of_birth row) then None
                           else Some (calculateAge today (or_string (date_of_birth row) []))),
                        ContextClient.risk_tolerance = ClientRow.risk_tolerance row,
                        ContextClient.annual_income = ClientRow.annual_income row,
                        ContextClient.financial_goals =
                          map FinancialGoal.name (or_empty (ClientRow.financial_goals row)) \<rparr>,
                    portfolio =
                      \<lparr> total_assets = totalCurrentValue portfolioTotals,
                        total_liabilities = 0,
                        net_worth = totalCurrentValue portfolioTotals,
                        asset_allocation = assetAllocation,
                        monthly_cash_flow = monthlyIncome - monthlyExpenses \<rparr>,
                    ClientContext.assets = or_empty (ClientRow.assets row) \<rparr>))"

section \<open>The chat route\<close>

text \<open>
  \<^verbatim>\<open>POST\<close> of \<^verbatim>\<open>app/api/ai/chat/route.ts\<close>. The handler returns its response
  and the calls it made on the way, in order: the call of the language model with the
  context and the question, and the insert into \<^verbatim>\<open>ai_chat_history\<close>.
  \<^verbatim>\<open>aiClient.generateResponse\<close> is a parameter that returns \<open>None\<close> when it throws,
  and \<^verbatim>\<open>crypto.randomUUID()\<close> is the parameter \<open>uuid\<close>. Every exception ends in
  the handler's \<^verbatim>\<open>catch\<close>, which answers 500.
\<close>

record ChatRequest =
  message :: "string option"
  clientId :: "string option"
  sessionId :: "string option"

datatype response =
  unauthorizedResponse
  | errorResponse string nat
  | successResponse string string

datatype call =
  GenerateResponse ClientContext string
  | InsertChatHistory string string string string string

definition POST ::
  "Clock \<Rightarrow> (ClientContext \<Rightarrow> string \<Rightarrow> string option) \<Rightarrow> string \<Rightarrow> Supabase \<Rightarrow> ChatRequest
     \<Rightarrow> response \<times> call list" where
  "POST today generateResponse uuid supabase request =
     (case user supabase of
        None \<Rightarrow> (unauthorizedResponse, [])
      | Some user_id \<Rightarrow>
          if falsy (message request) \<or> falsy (clientId request)
          then (errorResponse ''Message and client ID are required'' 400, [])
          else
            (let question = or_string (message request) [];
                 client_key = or_string (clientId request) []
             in case buildClientContext today client_key supabase of
                  Inl e \<Rightarrow> (errorResponse ''Failed to process AI request'' 500, [])
                | Inr context \<Rightarrow>
                    (case generateResponse context question of
                       None \<Rightarrow>
                         (errorResponse ''Failed to process AI request'' 500,
                          [GenerateResponse context question])
                     | Some aiResponse \<Rightarrow>
                         (let session_id = or_string (sessionId request) uuid
                          in (successResponse aiResponse session_id,
                              [GenerateResponse context question,
                               InsertChatHistory client_key user_id session_id
                                 question aiResponse])))))"

fun is_GenerateResponse :: "call \<Rightarrow> bool" where
  "is_GenerateResponse (GenerateResponse context question) = True"
| "is_GenerateResponse (InsertChatHistory c u s m a) = False"

section \<open>The claims' own words\<close>

text \<open>
  Three notions that the specification uses and the code does not name, each on dates
  given as year, month (from 1) and day. The age of the specification is the difference
  of the calendar years, less one exactly when the month and day of birth have not yet
  been reached in the current year. Its risk tier of a category is low for
  \<^verbatim>\<open>'savings'\<close>, high for \<^verbatim>\<open>'investment'\<close> and medium for
  \<^verbatim>\<open>'residence'\<close>, \<^verbatim>\<open>'rrsp'\<close>, \<^verbatim>\<open>'tfsa'\<close> and every other string. Its net
  monthly cash flow counts the income sources whose \<^verbatim>\<open>is_active\<close> flag is set, as
  the database function \<^verbatim>\<open>calculate_monthly_cash_flow\<close> does with
  \<^verbatim>\<open>WHERE ... AND is_active = true\<close>.
\<close>

definition claimed_age :: "int \<times> int \<times> int \<Rightarrow> int \<times> int \<times> int \<Rightarrow> int" where
  "claimed_age today birth =
     (case today of (ty, tm, td) \<Rightarrow>
        (case birth of (by, bm, bd) \<Rightarrow>
           ty - by - (if tm < bm \<or> (tm = bm \<and> td < bd) then 1 else 0)))"

definition claimed_risk_level :: "string \<Rightarrow> risk_level" where
  "claimed_risk_level k =
     (if k = ''savings'' then low else if k = ''investment'' then high else medium)"

definition active_cash_flow :: "ClientRow \<Rightarrow> real" where
  "active_cash_flow row =
     sum_list (map (\<lambda>i. or_zero (IncomeSource.monthly_amount i))
                 (filter is_active (or_empty (income_sources row))))
     - sum_list (map (\<lambda>e. or_zero (Expense.monthly_amount e)) (or_empty (expenses row)))"

section \<open>Example data\<close>

text \<open>A client whose only income source, of 1000 a month, is not active.\<close>

definition inactive_income_client :: ClientRow where
  "inactive_income_client =
     \<lparr> ClientRow.id' = ''c1'', advisor_id = Some ''advisor-a'', ClientRow.name = ''Client'',
       date_of_birth = None, ClientRow.risk_tolerance = ''moderate'',
       ClientRow.annual_income = None, ClientRow.financial_goals = Some [],
       ClientRow.assets = Some [],
       income_sources =
         Some [\<lparr> IncomeSource.monthly_amount = Some 1000, is_active = False \<rparr>],
       expenses = Some [] \<rparr>"

definition inactive_income_db :: Supabase where
  "inactive_income_db =
     \<lparr> user = Some ''advisor-a'', clients = [inactive_income_client], liabilities = [] \<rparr>"

text \<open>
  A client of advisor B with a residence and an investment account, and a mortgage in
  the table of liabilities; the database as the given user sees it; and three lists of
  assets, the second worth nothing, the third of three assets worth 1 each.
\<close>

definition example_client :: ClientRow where
  "example_client =
     \<lparr> ClientRow.id' = ''c2'', advisor_id = Some ''advisor-b'', ClientRow.name = ''Client'',
       date_of_birth = Some ''1990-05-15'',
       ClientRow.risk_tolerance = ''moderate'',
       ClientRow.annual_income = Some 90000,
       ClientRow.financial_goals = Some [\<lparr> FinancialGoal.name = ''Retirement'' \<rparr>],
       ClientRow.assets =
         Some [\<lparr>asset_type = ''residence'', current_value = 750000, growth_rate = 3,
                 projection_years = 5\<rparr>,
               \<lparr>asset_type = ''investment'', current_value = 125000, growth_rate = 7,
                 projection_years = 5\<rparr>],
       income_sources =
         Some [\<lparr> IncomeSource.monthly_amount = Some 7500, is_active = True \<rparr>],
       expenses = Some [\<lparr> Expense.monthly_amount = Some 4000 \<rparr>] \<rparr>"

definition example_assets :: "Asset list" where
  "example_assets =
     [\<lparr>asset_type = ''residence'', current_value = 750000, growth_rate = 3,
        projection_years = 5\<rparr>,
      \<lparr>asset_type = ''investment'', current_value = 125000, growth_rate = 7,
        projection_years = 5\<rparr>,
      \<lparr>asset_type = ''crypto'', current_value = 125000, growth_rate = 7,
        projection_years = 5\<rparr>]"

definition worthless_assets :: "Asset list" where
  "worthless_assets =
     [\<lparr>asset_type = ''savings'', current_value = 0, growth_rate = 5, projection_years = 10\<rparr>]"

definition equal_thirds :: "Asset list" where
  "equal_thirds =
     [\<lparr>asset_type = ''savings'', current_value = 1, growth_rate = 0, projection_years = 1\<rparr>,
      \<lparr>asset_type = ''tfsa'', current_value = 1, growth_rate = 0, projection_years = 1\<rparr>,
      \<lparr>asset_type = ''rrsp'', current_value = 1, growth_rate = 0, projection_years = 1\<rparr>]"

definition example_db :: "string option \<Rightarrow> Supabase" where
  "example_db u =
     \<lparr> user = u, clients = [example_client],
       liabilities = [\<lparr> client_id = ''c2'', current_balance = 400000 \<rparr>] \<rparr>"

text \<open>
  The instant 2025-05-14T16:00Z, which is day 20222 and 16 hours, on a server in UTC
  and on one in Toronto, where it is noon of 14 May.
\<close>

definition example_today :: Clock where
  "example_today = \<lparr> now = 20222 * 86400000 + 57600000, offset = (\<lambda>t. 0) \<rparr>"

definition toronto_clock :: Clock where
  "toronto_clock = \<lparr> now = 20222 * 86400000 + 57600000, offset = (\<lambda>t. - 240) \<rparr>"

definition example_request :: ChatRequest where
  "example_request =
     \<lparr> message = Some ''How is the portfolio doing?'', clientId = Some ''c2'',
       sessionId = None \<rparr>"

section \<open>Powers\<close>

lemma Math_pow_nat: "Math_pow b (real n) = Some (b ^ n)"
proof (cases "n = 0")
  case True
  then show ?thesis by (simp add: Math_pow_def)
next
  case False
  then have n: "0 < n" by simp
  consider "b = 0" | "0 < b" | "b < 0" by linarith
  then show ?thesis
  proof cases
    case 1
    with n show ?thesis by (simp add: Math_pow_def)
  next
    case 2
    with n show ?thesis by (simp add: Math_pow_def powr_realpow)
  next
    case 3
    then have ab: "0 < \<bar>b\<bar>" by simp
    have pw: "\<bar>b\<bar> powr real n = \<bar>b\<bar> ^ n"
      using ab by (simp add: powr_realpow)
    show ?thesis
    proof (cases "even n")
      case True
      then have "\<bar>b\<bar> ^ n = b ^ n" by (simp add: power_even_abs)
      with 3 n True pw show ?thesis by (simp add: Math_pow_def)
    next
      case False
      have "b ^ n = (- \<bar>b\<bar>) ^ n"
        using 3 by simp
      also have "\<dots> = - (\<bar>b\<bar> ^ n)"
        using False by (rule power_minus_odd)
      finally have "- (\<bar>b\<bar> ^ n) = b ^ n" by simp
      with 3 n False pw show ?thesis by (simp add: Math_pow_def)
    qed
  qed
qed


lemma Math_pow_tenth:
  "Math_pow x (1 / 10) = (if x < 0 then None else Some (root 10 x))"
proof -
  consider "x < 0" | "x = 0" | "0 < x" by linarith
  then show ?thesis
  proof cases
    case 1
    then show ?thesis by (simp add: Math_pow_def)
  next
    case 2
    then show ?thesis by (simp add: Math_pow_def)
  next
    case 3
    then have "root 10 x = x powr (1 / 10)"
      using root_powr_inverse [of 10 x] by simp
    with 3 show ?thesis by (simp add: Math_pow_def)
  qed
qed

section \<open>Folds\<close>

lemma foldl_plus: "foldl (\<lambda>sum x. sum + f x) z xs = z + sum_list (map f xs)"
  for z :: real
  by (induction xs arbitrary: z) simp_all

lemma num_add_simps:
  "num_add None b = None" "num_add a None = None" "num_add (Some x) (Some y) = Some (x + y)"
  by (simp_all add: num_add_def split: option.splits)

lemma foldl_num_add_None: "foldl (\<lambda>sum x. num_add sum (g x)) None xs = None"
  by (induction xs) (simp_all add: num_add_simps)

lemma foldl_num_add:
  "foldl (\<lambda>sum x. num_add sum (g x)) (Some z) xs
     = map_option (\<lambda>vs. z + sum_list vs) (those (map g xs))"
proof (induction xs arbitrary: z)
  case Nil
  then show ?case by simp
next
  case (Cons x xs)
  show ?case
  proof (cases "g x")
    case None
    then show ?thesis by (simp add: num_add_simps foldl_num_add_None)
  next
    case (Some v)
    then show ?thesis
      by (simp add: num_add_simps Cons.IH option.map_comp comp_def add.assoc
            split: option.splits)
  qed
qed

section \<open>Rounding\<close>

lemma round_half_even_near: "\<bar>of_int (round_half_even y) - y\<bar> \<le> 1 / 2"
proof -
  define f where "f = \<lfloor>y\<rfloor>"
  have b: "of_int f \<le> y" "y < of_int f + 1"
    unfolding f_def by linarith+
  have r: "round_half_even y =
          (if y - of_int f < 1 / 2 then f else if 1 / 2 < y - of_int f then f + 1
           else if even f then f else f + 1)"
    by (simp add: round_half_even_def Let_def f_def)
  consider "y - of_int f < 1 / 2" | "1 / 2 < y - of_int f" | "y - of_int f = 1 / 2"
    by linarith
  then show ?thesis
  proof cases
    case 1
    with r have "round_half_even y = f" by simp
    with 1 b show ?thesis by simp
  next
    case 2
    with r have "round_half_even y = f + 1" by simp
    with 2 b show ?thesis by simp
  next
    case 3
    with r have "round_half_even y = f \<or> round_half_even y = f + 1" by simp
    with 3 show ?thesis by auto
  qed
qed

lemma double_error: "\<bar>double x - x\<bar> \<le> \<bar>x\<bar> / 2 ^ 53"
proof (cases "x = 0")
  case True
  then show ?thesis by (simp add: double_def)
next
  case False
  define e where "e = \<lfloor>log 2 \<bar>x\<bar>\<rfloor>"
  define ulp :: real where "ulp = 2 powi (e - 52)"
  have pos: "0 < \<bar>x\<bar>" using False by simp
  have ulp_pos: "0 < ulp" by (simp add: ulp_def)
  have "(\<lfloor>log 2 \<bar>x\<bar>\<rfloor> = e) =
          (2 powr real_of_int e \<le> \<bar>x\<bar> \<and> \<bar>x\<bar> < 2 powr real_of_int (e + 1))"
    using pos by (intro floor_log_eq_powr_iff) simp_all
  then have "2 powr real_of_int e \<le> \<bar>x\<bar>" by (simp add: e_def)
  moreover have "2 powr real_of_int e = (2::real) powi e"
    by (rule powr_real_of_int') simp_all
  ultimately have low: "2 powi e \<le> \<bar>x\<bar>" by simp
  have split: "(2::real) powi e = ulp * 2 ^ 52"
    by (simp add: ulp_def power_int_diff)
  have d: "double x = of_int (round_half_even (x / ulp)) * ulp"
    using False by (simp add: double_def Let_def e_def ulp_def)
  have "double x - x = (of_int (round_half_even (x / ulp)) - x / ulp) * ulp"
    using ulp_pos by (simp add: d field_simps)
  then have "\<bar>double x - x\<bar> = \<bar>of_int (round_half_even (x / ulp)) - x / ulp\<bar> * ulp"
    using ulp_pos by (simp add: abs_mult)
  also have "\<dots> \<le> (1 / 2) * ulp"
    using round_half_even_near [of "x / ulp"] ulp_pos by (intro mult_right_mono) simp_all
  also have "\<dots> = (ulp * 2 ^ 52) / 2 ^ 53" by simp
  also have "\<dots> \<le> \<bar>x\<bar> / 2 ^ 53"
    using low split by (simp add: divide_right_mono)
  finally show ?thesis .
qed

lemma double_between:
  assumes "0 \<le> x"
  shows "x * (1 - 1 / 2 ^ 53) \<le> double x" and "double x \<le> x * (1 + 1 / 2 ^ 53)"
  using double_error [of x] assms by (simp_all add: abs_if field_simps split: if_splits)

lemma double_nonneg: "0 \<le> x \<Longrightarrow> 0 \<le> double x"
proof -
  assume x: "0 \<le> x"
  have "0 \<le> x * (1 - 1 / 2 ^ 53)" using x by simp
  with double_between(1) [OF x] show ?thesis by linarith
qed

text \<open>The rounding of a number whose binade is known.\<close>

lemma double_at:
  assumes "2 powi e \<le> \<bar>x\<bar>" and "\<bar>x\<bar> < 2 powi (e + 1)"
  shows "double x = of_int (round_half_even (x / 2 powi (e - 52))) * 2 powi (e - 52)"
proof -
  have "(0::real) < 2 powi e" by simp
  with assms(1) have pos: "0 < \<bar>x\<bar>" by linarith
  then have x: "x \<noteq> 0" by simp
  have a: "2 powr real_of_int e = (2::real) powi e"
    by (rule powr_real_of_int') simp_all
  have b: "2 powr real_of_int (e + 1) = (2::real) powi (e + 1)"
    by (rule powr_real_of_int') simp_all
  have "(\<lfloor>log 2 \<bar>x\<bar>\<rfloor> = e) =
          (2 powr real_of_int e \<le> \<bar>x\<bar> \<and> \<bar>x\<bar> < 2 powr real_of_int (e + 1))"
    using pos by (intro floor_log_eq_powr_iff) simp_all
  then have "\<lfloor>log 2 \<bar>x\<bar>\<rfloor> = e"
    unfolding a b using assms by blast
  with x show ?thesis by (simp add: double_def Let_def)
qed

section \<open>The compounding functions\<close>

text \<open>
  Claim C1, as amended. For a present value \<open>P \<ge> 0\<close>, a rate \<open>r > -1\<close> and a whole
  number of years \<open>n\<close>, the \<^verbatim>\<open>calculateFutureValue\<close> of \<^verbatim>\<open>lib/utils.ts\<close> takes
  the rate as a fraction and returns \<open>P (1 + r)\<^sup>n\<close>, and the \<^verbatim>\<open>calculateFutureValue\<close>
  of \<^verbatim>\<open>lib/utils/calculations.ts\<close> takes the rate as a percentage and returns
  \<open>P (1 + r / 100)\<^sup>n\<close>.
\<close>

theorem calculateFutureValue_compounds:
  assumes "0 \<le> P" and "- 1 < r"
  shows "utils_calculateFutureValue P r (real n) = Some (P * (1 + r) ^ n)
       \<and> calculateFutureValue P r (real n) = Some (P * (1 + r / 100) ^ n)"
  by (simp add: utils_calculateFutureValue_def calculateFutureValue_def Math_pow_nat)

theorem calculateFutureValue_compounds_witness:
  "(0::real) \<le> 750000 \<and> - 1 < (3 / 100 :: real)
   \<and> utils_calculateFutureValue 750000 (3 / 100) (real 5) = Some (750000 * (1 + 3 / 100) ^ 5)
   \<and> calculateFutureValue 750000 (3 / 100) (real 5)
       = Some (750000 * (1 + (3 / 100) / 100) ^ 5)"
  using calculateFutureValue_compounds [of 750000 "3 / 100" 5] by simp

text \<open>
  Claim C1 as it is stated fails on \<^verbatim>\<open>lib/utils/calculations.ts\<close>: with the fraction
  \<open>r = 1\<close>, one year and \<open>P = 100\<close> the claim promises \<open>100 (1 + 1) = 200\<close>, and the
  function returns \<open>100 (1 + 1 / 100) = 101\<close>.
\<close>

theorem calculateFutureValue_percent_counterexample:
  "calculateFutureValue 100 1 1 = Some 101 \<and> (100::real) * (1 + 1) ^ 1 = 200
   \<and> calculateFutureValue 100 1 1 \<noteq> Some (100 * (1 + 1) ^ 1)"
  by (simp add: calculateFutureValue_def Math_pow_def)

text \<open>
  Without rounding, the rounded function is the one above.
\<close>

lemma utils_calculateFutureValue_exact:
  "utils_calculateFutureValue_rounded (\<lambda>x. x) presentValue rate years
     = utils_calculateFutureValue presentValue rate years"
  by (simp add: utils_calculateFutureValue_rounded_def utils_calculateFutureValue_def)

text \<open>A zero divisor does not always end in \<^verbatim>\<open>NaN\<close> or an infinity.\<close>

lemma calculateGrowthRate_zero_divisors:
  "calculateGrowthRate (\<lambda>x. x) 0 100 (- 2) = Finite (- 1)"
  "calculateGrowthRate (\<lambda>x. x) 100 50 0 = Finite (- 1)"
  by (simp_all add: calculateGrowthRate_def Number_divide_def Number_exponentiate_def
        Number_subtract_def)



text \<open>
  The doubles of the round trip of the rate \<^verbatim>\<open>0.1\<close> for one year from 1000. The
  literal \<^verbatim>\<open>0.1\<close> is the double \<open>7205759403792794 / 2\<^sup>5\<^sup>6\<close>, and \<^verbatim>\<open>1 + 0.1\<close> is
  the double \<open>4953959590107546 / 2\<^sup>5\<^sup>2\<close>.
\<close>

lemma double_one: "double 1 = 1"
  using double_at [of 0 1] by (simp add: round_half_even_def Let_def)










section \<open>The portfolio aggregator\<close>

text \<open>
  Claim C3. For every list of assets, \<^verbatim>\<open>totalCurrentValue\<close> is the sum of the
  \<^verbatim>\<open>current_value\<close> fields; \<^verbatim>\<open>totalFutureValue\<close> is the sum, over the assets, of
  \<^verbatim>\<open>calculateFutureValue\<close> at the asset's own value, rate and years (and is not a
  finite number as soon as one of the summands is not);
  \<^verbatim>\<open>totalProjectedGrowth\<close> is \<^verbatim>\<open>totalFutureValue\<close> minus
  \<^verbatim>\<open>totalCurrentValue\<close>; and the empty list gives zero in every field.
\<close>

theorem portfolio_totals_are_sums:
  "totalCurrentValue (calculatePortfolioTotals asset_list) = sum_list (map current_value asset_list)
   \<and> totalFutureValue (calculatePortfolioTotals asset_list) =
       map_option sum_list (those (map (\<lambda>asset.
          calculateFutureValue (current_value asset) (growth_rate asset) (projection_years asset))
          asset_list))
   \<and> totalProjectedGrowth (calculatePortfolioTotals asset_list) =
       map_option (\<lambda>fv. fv - totalCurrentValue (calculatePortfolioTotals asset_list))
         (totalFutureValue (calculatePortfolioTotals asset_list))
   \<and> calculatePortfolioTotals [] =
       \<lparr> totalCurrentValue = 0, totalFutureValue = Some 0,
         totalProjectedGrowth = Some 0, overallGrowthRate = Some 0 \<rparr>"
  by (simp add: calculatePortfolioTotals_def Let_def foldl_plus foldl_num_add)

text \<open>
  Claim C2, as amended. For every list of assets, when \<^verbatim>\<open>totalCurrentValue\<close> is
  positive \<^verbatim>\<open>overallGrowthRate\<close> is the percentage
  \<open>((totalFutureValue / totalCurrentValue)\<^bsup>1/10\<^esup> - 1) \<times> 100\<close>; otherwise, and so when
  \<^verbatim>\<open>totalCurrentValue\<close> is 0, it is 0 and nothing is divided. Of a future value
  that is a number and not negative the power is the real tenth root; of any other
  future value the expression is not a finite number, and neither is the result.
\<close>

theorem overallGrowthRate_formula:
  "overallGrowthRate (calculatePortfolioTotals asset_list) =
     (if 0 < totalCurrentValue (calculatePortfolioTotals asset_list)
      then (case totalFutureValue (calculatePortfolioTotals asset_list) of
              None \<Rightarrow> None
            | Some fv \<Rightarrow>
                if fv < 0 then None
                else Some ((root 10 (fv / totalCurrentValue (calculatePortfolioTotals asset_list)) - 1)
                           * 100))
      else Some 0)"
  by (auto simp add: calculatePortfolioTotals_def Let_def Math_pow_tenth
        divide_less_0_iff split: option.splits)

text \<open>
  Claim C2 as it is stated fails: one asset worth 1 that grows by 100 percent a year for
  10 years has the future value 1024, the claim's \<open>(1024 / 1)\<^bsup>1/10\<^esup> - 1\<close> is 1, and
  the code returns 100.
\<close>

theorem overallGrowthRate_counterexample:
  "0 < totalCurrentValue (calculatePortfolioTotals
         [\<lparr>asset_type = ''investment'', current_value = 1, growth_rate = 100, projection_years = 10\<rparr>])
   \<and> totalFutureValue (calculatePortfolioTotals
         [\<lparr>asset_type = ''investment'', current_value = 1, growth_rate = 100, projection_years = 10\<rparr>]) = Some 1024
   \<and> root 10 (1024 / 1) - 1 = (1::real)
   \<and> overallGrowthRate (calculatePortfolioTotals
         [\<lparr>asset_type = ''investment'', current_value = 1, growth_rate = 100, projection_years = 10\<rparr>]) = Some 100
   \<and> overallGrowthRate (calculatePortfolioTotals
         [\<lparr>asset_type = ''investment'', current_value = 1, growth_rate = 100, projection_years = 10\<rparr>]) \<noteq> Some (root 10 (1024 / 1) - 1)"
proof -
  have r: "root 10 (1024::real) = 2"
    using real_root_pos2 [of 10 2] by simp
  show ?thesis
    by (simp add: calculatePortfolioTotals_def calculateFutureValue_def num_add_def
          Math_pow_tenth r) (simp add: Math_pow_def)
qed

section \<open>The allocation classifier\<close>

text \<open>A sum that is rounded after each addition of a number that is not negative.\<close>

lemma fold_double_bounds:
  assumes "\<forall>x \<in> set xs. 0 \<le> g x" and "0 \<le> s"
    and "s * (1 - 1 / 2 ^ 53) ^ k \<le> a" and "a \<le> s * (1 + 1 / 2 ^ 53) ^ k"
  shows "(s + sum_list (map g xs)) * (1 - 1 / 2 ^ 53) ^ (k + length xs)
           \<le> foldl (\<lambda>sum x. double (sum + g x)) a xs
       \<and> foldl (\<lambda>sum x. double (sum + g x)) a xs
           \<le> (s + sum_list (map g xs)) * (1 + 1 / 2 ^ 53) ^ (k + length xs)"
  using assms
proof (induction xs arbitrary: s a k)
  case Nil
  then show ?case by simp
next
  case (Cons x xs)
  let ?lo = "1 - 1 / 2 ^ 53 :: real" and ?hi = "1 + 1 / 2 ^ 53 :: real"
  have lo: "0 \<le> ?lo" "?lo \<le> 1" and hi: "1 \<le> ?hi" by simp_all
  have gx: "0 \<le> g x" using Cons.prems(1) by simp
  have lok: "0 \<le> ?lo ^ k" "?lo ^ k \<le> 1"
    using lo by (simp_all add: power_le_one)
  have hik: "1 \<le> ?hi ^ k" using hi by (rule one_le_power)
  have a0: "0 \<le> a"
  proof -
    have "0 \<le> s * ?lo ^ k" using Cons.prems(2) lok(1) by (rule mult_nonneg_nonneg)
    with Cons.prems(3) show ?thesis by linarith
  qed
  have sum0: "0 \<le> a + g x" using a0 gx by simp
  have l1: "(s + g x) * ?lo ^ k \<le> a + g x"
  proof -
    have "g x * ?lo ^ k \<le> g x * 1" using lok(2) gx by (rule mult_left_mono)
    with Cons.prems(3) show ?thesis by (simp add: distrib_right)
  qed
  have u1: "a + g x \<le> (s + g x) * ?hi ^ k"
  proof -
    have "g x * 1 \<le> g x * ?hi ^ k" using hik gx by (rule mult_left_mono)
    with Cons.prems(4) show ?thesis by (simp add: distrib_right)
  qed
  have l2: "(s + g x) * ?lo ^ Suc k \<le> double (a + g x)"
  proof -
    have "(s + g x) * ?lo ^ k * ?lo \<le> (a + g x) * ?lo"
      using l1 lo(1) by (rule mult_right_mono)
    also have "\<dots> \<le> double (a + g x)" using double_between(1) [OF sum0] .
    finally show ?thesis by (simp add: mult.assoc)
  qed
  have u2: "double (a + g x) \<le> (s + g x) * ?hi ^ Suc k"
  proof -
    have "double (a + g x) \<le> (a + g x) * ?hi" using double_between(2) [OF sum0] .
    also have "\<dots> \<le> (s + g x) * ?hi ^ k * ?hi"
      using u1 by (intro mult_right_mono) simp_all
    finally show ?thesis by (simp add: mult.assoc)
  qed
  have rest: "\<forall>x \<in> set xs. 0 \<le> g x" using Cons.prems(1) by simp
  have s0: "0 \<le> s + g x" using Cons.prems(2) gx by simp
  from Cons.IH [OF rest s0 l2 u2] show ?case
    by (simp add: add.assoc)
qed

text \<open>The keys and the values of the accumulator.\<close>

lemma add_to_keys: "map fst (add_to fl k v acc) = map fst acc"
  by (induction acc) auto

lemma add_to_map_of:
  "map_of (add_to fl k v acc) k' =
     (if k' = k then map_option (\<lambda>d. (fl (fst d + v), snd d + 1)) (map_of acc k)
      else map_of acc k')"
  by (induction acc) auto

lemma allocation_step_keys:
  "asset_type a \<notin> set Object_prototype_keys \<Longrightarrow>
   map fst (allocation_step fl acc a) =
     (if asset_type a \<in> set (map fst acc) then map fst acc else map fst acc @ [asset_type a])"
  by (auto simp add: allocation_step_def Let_def add_to_keys map_of_eq_None_iff)

lemma allocation_step_value:
  "asset_type a \<notin> set Object_prototype_keys \<Longrightarrow>
   val_of (allocation_step fl acc a) k =
     (if asset_type a = k then fl (val_of acc k + current_value a) else val_of acc k)"
  by (auto simp add: val_of_def allocation_step_def Let_def add_to_map_of split: option.splits)

lemma foldl_allocation_step:
  "\<forall>a \<in> set xs. asset_type a \<notin> set Object_prototype_keys \<Longrightarrow> distinct (map fst acc) \<Longrightarrow>
   distinct (map fst (foldl (allocation_step fl) acc xs))
   \<and> set (map fst (foldl (allocation_step fl) acc xs)) = set (map fst acc) \<union> asset_type ` set xs
   \<and> val_of (foldl (allocation_step fl) acc xs) k =
       foldl (\<lambda>sum a. fl (sum + current_value a)) (val_of acc k)
         (filter (\<lambda>a. asset_type a = k) xs)"
proof (induction xs arbitrary: acc)
  case Nil
  then show ?case by simp
next
  case (Cons a xs)
  have own: "asset_type a \<notin> set Object_prototype_keys" using Cons.prems by simp
  have d: "distinct (map fst (allocation_step fl acc a))"
    using Cons.prems(2) by (simp add: allocation_step_keys [OF own])
  have rest: "\<forall>a \<in> set xs. asset_type a \<notin> set Object_prototype_keys"
    using Cons.prems by simp
  from Cons.IH [OF rest d] show ?case
    by (auto simp add: allocation_step_keys [OF own] allocation_step_value [OF own])
qed

lemma entries_by_key:
  "distinct (map fst acc) \<Longrightarrow>
   map (\<lambda>entry. h (fst (snd entry))) acc = map (\<lambda>k. h (val_of acc k)) (map fst acc)"
proof (induction acc)
  case Nil
  then show ?case by simp
next
  case (Cons e acc)
  obtain k d where e: "e = (k, d)" by (cases e)
  have "\<forall>k' \<in> set (map fst acc). val_of (e # acc) k' = val_of acc k'"
    using Cons.prems e by (auto simp add: val_of_def)
  then have "map (\<lambda>k. h (val_of (e # acc) k)) (map fst acc) = map (\<lambda>k. h (val_of acc k)) (map fst acc)"
    by (intro map_cong) auto
  with Cons e show ?case by (simp add: val_of_def)
qed

lemma sum_single_key:
  "distinct ks \<Longrightarrow> sum_list (map (\<lambda>k. if t = k then v else 0) ks) = (if t \<in> set ks then v else (0::real))"
  by (induction ks) auto

lemma group_partition:
  "distinct ks \<Longrightarrow> asset_type ` set xs \<subseteq> set ks \<Longrightarrow>
   sum_list (map (\<lambda>k. sum_list (map current_value (filter (\<lambda>a. asset_type a = k) xs))) ks)
     = sum_list (map current_value xs)"
proof (induction xs)
  case Nil
  then show ?case by simp
next
  case (Cons a xs)
  have "sum_list (map (\<lambda>k. sum_list (map current_value (filter (\<lambda>a. asset_type a = k) (a # xs)))) ks)
      = sum_list (map (\<lambda>k. (if asset_type a = k then current_value a else 0)
            + sum_list (map current_value (filter (\<lambda>a. asset_type a = k) xs))) ks)"
    by (intro arg_cong [where f = sum_list] map_cong) auto
  also have "\<dots> = sum_list (map (\<lambda>k. if asset_type a = k then current_value a else 0) ks)
      + sum_list (map (\<lambda>k. sum_list (map current_value (filter (\<lambda>a. asset_type a = k) xs))) ks)"
    by (simp add: sum_list_addf)
  also have "\<dots> = current_value a + sum_list (map current_value xs)"
    using Cons by (simp add: sum_single_key)
  finally show ?case by simp
qed

lemma sum_insort_key: "sum_list (map f (insort_key key x xs)) = f x + sum_list (map f xs)"
  for f :: "'a \<Rightarrow> real"
  by (induction xs) auto

lemma sum_sort_key: "sum_list (map f (sort_key key xs)) = sum_list (map f xs)"
  for f :: "'a \<Rightarrow> real"
  by (induction xs) (simp_all add: sum_insort_key)

lemma sum_filter_split:
  "sum_list (map f (filter P xs)) + sum_list (map f (filter (\<lambda>x. \<not> P x) xs)) = sum_list (map f xs)"
  for f :: "'a \<Rightarrow> real"
  by (induction xs) auto

lemma sum_Object_entries: "sum_list (map f (Object_entries obj)) = sum_list (map f obj)"
  for f :: "string \<times> 'a \<Rightarrow> real"
  using sum_filter_split [of f "\<lambda>entry. array_index (fst entry) \<noteq> None" obj]
  by (simp add: Object_entries_def sum_sort_key)

lemma set_Object_entries: "set (Object_entries obj) = set obj"
  by (auto simp add: Object_entries_def)

lemma sum_list_share:
  "sum_list (map (\<lambda>e. f e / t * 100) xs) = sum_list (map f xs) / t * (100::real)"
  by (induction xs) (simp_all add: add_divide_distrib distrib_right)

lemma allocation_keys:
  assumes "\<forall>a \<in> set xs. asset_type a \<notin> set Object_prototype_keys"
  shows "distinct (map fst (foldl (allocation_step fl) [] xs))"
    and "set (map fst (foldl (allocation_step fl) [] xs)) = asset_type ` set xs"
    and "val_of (foldl (allocation_step fl) [] xs) k =
           foldl (\<lambda>sum a. fl (sum + current_value a)) 0 (filter (\<lambda>a. asset_type a = k) xs)"
  using foldl_allocation_step [OF assms, of "[]" fl k] by (simp_all add: val_of_def)

lemma percentage_sum_by_key:
  assumes "\<forall>a \<in> set xs. asset_type a \<notin> set Object_prototype_keys"
  shows "sum_list (map percentage (calculateAssetAllocation fl xs)) =
           sum_list (map (\<lambda>k.
               if 0 < foldl (\<lambda>sum a. fl (sum + current_value a)) 0 xs
               then fl (fl (foldl (\<lambda>sum a. fl (sum + current_value a)) 0
                              (filter (\<lambda>a. asset_type a = k) xs)
                            / foldl (\<lambda>sum a. fl (sum + current_value a)) 0 xs) * 100)
               else 0)
             (map fst (foldl (allocation_step fl) [] xs)))"
proof -
  let ?T = "foldl (\<lambda>sum a. fl (sum + current_value a)) 0 xs"
  let ?P = "\<lambda>v. if 0 < ?T then fl (fl (v / ?T) * 100) else 0"
  let ?alloc = "foldl (allocation_step fl) [] xs"
  have "map percentage (calculateAssetAllocation fl xs)
          = map (\<lambda>entry. ?P (fst (snd entry))) (Object_entries ?alloc)"
    by (simp add: calculateAssetAllocation_def Let_def comp_def case_prod_beta)
  then have "sum_list (map percentage (calculateAssetAllocation fl xs))
          = sum_list (map (\<lambda>entry. ?P (fst (snd entry))) (Object_entries ?alloc))"
    by (rule arg_cong)
  also have "\<dots> = sum_list (map (\<lambda>entry. ?P (fst (snd entry))) ?alloc)"
    by (rule sum_Object_entries)
  also have "map (\<lambda>entry. ?P (fst (snd entry))) ?alloc
          = map (\<lambda>k. ?P (val_of ?alloc k)) (map fst ?alloc)"
    using allocation_keys(1) [OF assms] by (rule entries_by_key)
  finally show ?thesis
    by (simp only: allocation_keys(3) [OF assms])
qed

lemma entry_values:
  assumes "\<forall>a \<in> set xs. asset_type a \<notin> set Object_prototype_keys"
    and "e \<in> set (calculateAssetAllocation fl xs)"
  shows "val e = foldl (\<lambda>sum a. fl (sum + current_value a)) 0
                   (filter (\<lambda>a. asset_type a = category e) xs)"
    and "percentage e =
           (if 0 < foldl (\<lambda>sum a. fl (sum + current_value a)) 0 xs
            then fl (fl (val e / foldl (\<lambda>sum a. fl (sum + current_value a)) 0 xs) * 100)
            else 0)"
proof -
  let ?alloc = "foldl (allocation_step fl) [] xs"
  from assms(2) obtain c d where cd: "(c, d) \<in> set ?alloc"
    and e: "category e = c" "val e = fst d"
      "percentage e =
         (if 0 < foldl (\<lambda>sum a. fl (sum + current_value a)) 0 xs
          then fl (fl (fst d / foldl (\<lambda>sum a. fl (sum + current_value a)) 0 xs) * 100)
          else 0)"
    by (auto simp add: calculateAssetAllocation_def Let_def set_Object_entries)
  from cd allocation_keys(1) [OF assms(1)] have "map_of ?alloc c = Some d" by simp
  then have "val_of ?alloc c = fst d" by (simp add: val_of_def)
  with allocation_keys(3) [OF assms(1), of fl c] e show
    "val e = foldl (\<lambda>sum a. fl (sum + current_value a)) 0
                   (filter (\<lambda>a. asset_type a = category e) xs)"
    by simp
  from e show "percentage e =
           (if 0 < foldl (\<lambda>sum a. fl (sum + current_value a)) 0 xs
            then fl (fl (val e / foldl (\<lambda>sum a. fl (sum + current_value a)) 0 xs) * 100)
            else 0)"
    by simp
qed

lemma exact_percentages:
  assumes "\<forall>a \<in> set xs. asset_type a \<notin> set Object_prototype_keys"
  shows "sum_list (map percentage (calculateAssetAllocation (\<lambda>x. x) xs)) =
           (if 0 < sum_list (map current_value xs) then 100 else 0)"
proof -
  let ?ks = "map fst (foldl (allocation_step (\<lambda>x. x)) [] xs)"
  let ?T = "sum_list (map current_value xs)"
  have part: "sum_list (map (\<lambda>k. sum_list (map current_value (filter (\<lambda>a. asset_type a = k) xs))) ?ks) = ?T"
    using allocation_keys(1,2) [OF assms, of "\<lambda>x. x"] by (intro group_partition) simp_all
  have fp: "\<And>ys. foldl (\<lambda>sum a. sum + current_value a) 0 ys = sum_list (map current_value ys)"
    by (simp add: foldl_plus)
  have "sum_list (map percentage (calculateAssetAllocation (\<lambda>x. x) xs)) =
          sum_list (map (\<lambda>k. if 0 < ?T
             then sum_list (map current_value (filter (\<lambda>a. asset_type a = k) xs)) / ?T * 100
             else 0) ?ks)"
    unfolding percentage_sum_by_key [OF assms] fp ..
  also have "\<dots> = (if 0 < ?T then 100 else 0)"
  proof (cases "0 < ?T")
    case True
    let ?G = "\<lambda>k. sum_list (map current_value (filter (\<lambda>a. asset_type a = k) xs))"
    have "sum_list (map (\<lambda>k. if 0 < ?T then ?G k / ?T * 100 else 0) ?ks)
            = sum_list (map (\<lambda>k. ?G k / ?T * 100) ?ks)"
      using True by simp
    also have "\<dots> = sum_list (map ?G ?ks) / ?T * 100"
      by (rule sum_list_share)
    also have "\<dots> = ?T / ?T * 100"
      by (simp only: part)
    also have "\<dots> = 100"
      using True by simp
    finally show ?thesis using True by simp
  next
    case False
    then show ?thesis by (simp add: comp_def)
  qed
  finally show ?thesis .
qed

text \<open>The percentages in the arithmetic of the doubles.\<close>

lemma double_total_bounds:
  assumes "\<forall>a \<in> set xs. 0 \<le> current_value a"
  shows "sum_list (map current_value xs) * (1 - 1 / 2 ^ 53) ^ length xs
           \<le> foldl (\<lambda>sum a. double (sum + current_value a)) 0 xs"
    and "foldl (\<lambda>sum a. double (sum + current_value a)) 0 xs
           \<le> sum_list (map current_value xs) * (1 + 1 / 2 ^ 53) ^ length xs"
  using fold_double_bounds [of xs current_value 0 0 0] assms by simp_all

lemma double_group_bounds:
  assumes "\<forall>a \<in> set xs. 0 \<le> current_value a"
  shows "sum_list (map current_value (filter P xs)) * (1 - 1 / 2 ^ 53) ^ length xs
           \<le> foldl (\<lambda>sum a. double (sum + current_value a)) 0 (filter P xs)"
    and "foldl (\<lambda>sum a. double (sum + current_value a)) 0 (filter P xs)
           \<le> sum_list (map current_value (filter P xs)) * (1 + 1 / 2 ^ 53) ^ length xs"
proof -
  let ?ys = "filter P xs"
  let ?lo = "1 - 1 / 2 ^ 53 :: real" and ?hi = "1 + 1 / 2 ^ 53 :: real"
  have nn: "\<forall>a \<in> set ?ys. 0 \<le> current_value a" using assms by simp
  have v: "0 \<le> sum_list (map current_value ?ys)"
    using nn by (intro sum_list_nonneg) auto
  have len: "length ?ys \<le> length xs" by simp
  have "?lo ^ length xs \<le> ?lo ^ length ?ys"
    using len by (intro power_decreasing) simp_all
  then have "sum_list (map current_value ?ys) * ?lo ^ length xs
               \<le> sum_list (map current_value ?ys) * ?lo ^ length ?ys"
    using v by (intro mult_left_mono)
  also have "\<dots> \<le> foldl (\<lambda>sum a. double (sum + current_value a)) 0 ?ys"
    using double_total_bounds(1) [OF nn] .
  finally show "sum_list (map current_value ?ys) * ?lo ^ length xs
           \<le> foldl (\<lambda>sum a. double (sum + current_value a)) 0 ?ys" .
  have "?hi ^ length ?ys \<le> ?hi ^ length xs"
    using len by (intro power_increasing) simp_all
  then have "sum_list (map current_value ?ys) * ?hi ^ length ?ys
               \<le> sum_list (map current_value ?ys) * ?hi ^ length xs"
    using v by (intro mult_left_mono)
  with double_total_bounds(2) [OF nn]
  show "foldl (\<lambda>sum a. double (sum + current_value a)) 0 ?ys
           \<le> sum_list (map current_value ?ys) * ?hi ^ length xs"
    by linarith
qed

lemma double_share_bounds:
  assumes "0 \<le> v" and "0 < t" and "0 \<le> v1" and "v1 \<le> v" and "v \<le> v2"
    and "0 < t1" and "t1 \<le> t" and "t \<le> t2"
  shows "v1 / t2 * 100 * (1 - 1 / 2 ^ 53) ^ 2 \<le> double (double (v / t) * 100)"
    and "double (double (v / t) * 100) \<le> v2 / t1 * 100 * (1 + 1 / 2 ^ 53) ^ 2"
proof -
  let ?lo = "1 - 1 / 2 ^ 53 :: real" and ?hi = "1 + 1 / 2 ^ 53 :: real"
  have lo: "0 \<le> ?lo" and hi: "0 \<le> ?hi" by simp_all
  have r0: "0 \<le> v / t" using assms by simp
  have q0: "0 \<le> double (v / t)" using r0 by (rule double_nonneg)
  have q100: "0 \<le> double (v / t) * 100" using q0 by simp
  have rl: "v1 / t2 \<le> v / t"
    using assms by (intro frac_le) simp_all
  have rh: "v / t \<le> v2 / t1"
    using assms by (intro frac_le) simp_all
  have "v1 / t2 * 100 * ?lo ^ 2 = (v1 / t2 * ?lo) * 100 * ?lo"
    by (simp add: power2_eq_square)
  also have "\<dots> \<le> (v / t * ?lo) * 100 * ?lo"
    using rl lo by (intro mult_right_mono) simp_all
  also have "\<dots> \<le> double (v / t) * 100 * ?lo"
    using double_between(1) [OF r0] lo by (intro mult_right_mono) simp_all
  also have "\<dots> \<le> double (double (v / t) * 100)"
    using double_between(1) [OF q100] .
  finally show "v1 / t2 * 100 * ?lo ^ 2 \<le> double (double (v / t) * 100)" .
  have "double (double (v / t) * 100) \<le> double (v / t) * 100 * ?hi"
    using double_between(2) [OF q100] .
  also have "\<dots> \<le> (v / t * ?hi) * 100 * ?hi"
    using double_between(2) [OF r0] hi by (intro mult_right_mono) simp_all
  also have "\<dots> \<le> (v2 / t1 * ?hi) * 100 * ?hi"
    using rh hi by (intro mult_right_mono) simp_all
  also have "\<dots> = v2 / t1 * 100 * ?hi ^ 2"
    by (simp add: power2_eq_square)
  finally show "double (double (v / t) * 100) \<le> v2 / t1 * 100 * ?hi ^ 2" .
qed

lemma double_percentages:
  assumes own: "\<forall>a \<in> set xs. asset_type a \<notin> set Object_prototype_keys"
    and nn: "\<forall>a \<in> set xs. 0 \<le> current_value a"
    and pos: "0 < sum_list (map current_value xs)"
  shows "100 * (1 - 1 / 2 ^ 53) ^ (length xs + 2) / (1 + 1 / 2 ^ 53) ^ length xs
           \<le> sum_list (map percentage (calculateAssetAllocation double xs))"
    and "sum_list (map percentage (calculateAssetAllocation double xs))
           \<le> 100 * (1 + 1 / 2 ^ 53) ^ (length xs + 2) / (1 - 1 / 2 ^ 53) ^ length xs"
proof -
  define lo :: real where "lo = 1 - 1 / 2 ^ 53"
  define hi :: real where "hi = 1 + 1 / 2 ^ 53"
  define n where "n = length xs"
  define T where "T = sum_list (map current_value xs)"
  define T' where "T' = foldl (\<lambda>sum a. double (sum + current_value a)) 0 xs"
  define G where "G = (\<lambda>k. sum_list (map current_value (filter (\<lambda>a. asset_type a = k) xs)))"
  define G' where "G' = (\<lambda>k. foldl (\<lambda>sum a. double (sum + current_value a)) 0
                              (filter (\<lambda>a. asset_type a = k) xs))"
  define ks where "ks = map fst (foldl (allocation_step double) [] xs)"
  have lo0: "0 < lo" and hi0: "0 < hi" by (simp_all add: lo_def hi_def)
  have lon: "0 < lo ^ n" and hin: "0 < hi ^ n" using lo0 hi0 by simp_all
  have T0: "0 < T" using pos by (simp add: T_def)
  have tb: "T * lo ^ n \<le> T'" "T' \<le> T * hi ^ n"
    using double_total_bounds [OF nn] by (simp_all add: T_def T'_def lo_def hi_def n_def)
  have tl0: "0 < T * lo ^ n" using T0 lon by simp
  then have T'0: "0 < T'" using tb(1) by linarith
  have gb: "G k * lo ^ n \<le> G' k" "G' k \<le> G k * hi ^ n" for k
    using double_group_bounds [OF nn, of "\<lambda>a. asset_type a = k"]
    by (simp_all add: G_def G'_def lo_def hi_def n_def)
  have G0: "0 \<le> G k" for k
    unfolding G_def using nn by (intro sum_list_nonneg) auto
  have gl0: "0 \<le> G k * lo ^ n" for k using G0 lon by simp
  have G'0: "0 \<le> G' k" for k using gl0 [of k] gb(1) [of k] by linarith
  have each: "G k * lo ^ n / (T * hi ^ n) * 100 * lo ^ 2 \<le> double (double (G' k / T') * 100)"
      "double (double (G' k / T') * 100) \<le> G k * hi ^ n / (T * lo ^ n) * 100 * hi ^ 2" for k
    using double_share_bounds [OF G'0 [of k] T'0 gl0 [of k] gb(1) [of k] gb(2) [of k] tl0 tb(1) tb(2)]
    by (simp_all add: lo_def hi_def)
  have part: "sum_list (map G ks) = T"
    unfolding G_def ks_def T_def
    using allocation_keys(1,2) [OF own, of double] by (intro group_partition) simp_all
  have total: "sum_list (map percentage (calculateAssetAllocation double xs))
                 = sum_list (map (\<lambda>k. double (double (G' k / T') * 100)) ks)"
    using T'0 unfolding percentage_sum_by_key [OF own] G'_def T'_def ks_def by simp
  have "sum_list (map (\<lambda>k. G k * (lo ^ n / (T * hi ^ n) * 100 * lo ^ 2)) ks)
          \<le> sum_list (map (\<lambda>k. double (double (G' k / T') * 100)) ks)"
    using each(1) by (intro sum_list_mono) (simp add: mult.assoc)
  moreover have "sum_list (map (\<lambda>k. G k * (lo ^ n / (T * hi ^ n) * 100 * lo ^ 2)) ks)
          = T * (lo ^ n / (T * hi ^ n) * 100 * lo ^ 2)"
    by (simp only: sum_list_mult_const part)
  moreover have "T * (lo ^ n / (T * hi ^ n) * 100 * lo ^ 2) = 100 * lo ^ (n + 2) / hi ^ n"
    using T0 by (simp add: power_add power2_eq_square)
  ultimately show "100 * (1 - 1 / 2 ^ 53) ^ (length xs + 2) / (1 + 1 / 2 ^ 53) ^ length xs
           \<le> sum_list (map percentage (calculateAssetAllocation double xs))"
    unfolding total lo_def hi_def n_def by simp
  have "sum_list (map (\<lambda>k. double (double (G' k / T') * 100)) ks)
          \<le> sum_list (map (\<lambda>k. G k * (hi ^ n / (T * lo ^ n) * 100 * hi ^ 2)) ks)"
    using each(2) by (intro sum_list_mono) (simp add: mult.assoc)
  moreover have "sum_list (map (\<lambda>k. G k * (hi ^ n / (T * lo ^ n) * 100 * hi ^ 2)) ks)
          = T * (hi ^ n / (T * lo ^ n) * 100 * hi ^ 2)"
    by (simp only: sum_list_mult_const part)
  moreover have "T * (hi ^ n / (T * lo ^ n) * 100 * hi ^ 2) = 100 * hi ^ (n + 2) / lo ^ n"
    using T0 by (simp add: power_add power2_eq_square)
  ultimately show "sum_list (map percentage (calculateAssetAllocation double xs))
           \<le> 100 * (1 + 1 / 2 ^ 53) ^ (length xs + 2) / (1 - 1 / 2 ^ 53) ^ length xs"
    unfolding total lo_def hi_def n_def by simp
qed

lemma double_percentages_zero:
  assumes nn: "\<forall>a \<in> set xs. 0 \<le> current_value a"
    and zero: "sum_list (map current_value xs) = 0"
    and e: "e \<in> set (calculateAssetAllocation double xs)"
  shows "percentage e = 0"
proof -
  have "foldl (\<lambda>sum a. double (sum + current_value a)) 0 xs \<le> 0"
    using double_total_bounds(2) [OF nn] zero by simp
  with e show ?thesis
    by (auto simp add: calculateAssetAllocation_def Let_def)
qed

text \<open>
  Claim C6, as amended. For every list of assets none of which has the name of a member
  of \<^verbatim>\<open>Object.prototype\<close> as its \<^verbatim>\<open>asset_type\<close>: the value of each category of
  the allocation is the sum of the current values of the assets of that category, and
  its percentage is that value over the total current value, times 100, when the total
  is positive, each operation rounded. When the total is positive the percentages sum
  to 100 up to that rounding: to exactly 100 when every operation is exact, and, in the
  arithmetic of the doubles, for \<open>N\<close> assets none of which has a negative value, to a
  number between \<open>100 (1 - u)\<^bsup>N+2\<^esup> / (1 + u)\<^sup>N\<close> and \<open>100 (1 + u)\<^bsup>N+2\<^esup> / (1 - u)\<^sup>N\<close>,
  where \<open>u = 2\<^bsup>-53\<^esup>\<close>. When the total is 0 every percentage is 0.
\<close>

theorem allocation_percentages:
  assumes "\<forall>a \<in> set asset_list. asset_type a \<notin> set Object_prototype_keys"
  shows "(0 < sum_list (map current_value asset_list) \<longrightarrow>
            sum_list (map percentage (calculateAssetAllocation (\<lambda>x. x) asset_list)) = 100)
       \<and> (sum_list (map current_value asset_list) = 0 \<longrightarrow>
            (\<forall>e \<in> set (calculateAssetAllocation (\<lambda>x. x) asset_list). percentage e = 0))
       \<and> ((\<forall>a \<in> set asset_list. 0 \<le> current_value a) \<longrightarrow>
            (0 < sum_list (map current_value asset_list) \<longrightarrow>
               100 * (1 - 1 / 2 ^ 53) ^ (length asset_list + 2)
                   / (1 + 1 / 2 ^ 53) ^ length asset_list
                 \<le> sum_list (map percentage (calculateAssetAllocation double asset_list))
               \<and> sum_list (map percentage (calculateAssetAllocation double asset_list))
                 \<le> 100 * (1 + 1 / 2 ^ 53) ^ (length asset_list + 2)
                       / (1 - 1 / 2 ^ 53) ^ length asset_list)
            \<and> (sum_list (map current_value asset_list) = 0 \<longrightarrow>
                 (\<forall>e \<in> set (calculateAssetAllocation double asset_list). percentage e = 0)))
       \<and> (\<forall>e \<in> set (calculateAssetAllocation fl asset_list).
            val e = foldl (\<lambda>sum a. fl (sum + current_value a)) 0
                      (filter (\<lambda>a. asset_type a = category e) asset_list)
            \<and> percentage e =
                (if 0 < foldl (\<lambda>sum a. fl (sum + current_value a)) 0 asset_list
                 then fl (fl (val e / foldl (\<lambda>sum a. fl (sum + current_value a)) 0 asset_list)
                            * 100)
                 else 0))"
proof -
  have exact: "0 < sum_list (map current_value asset_list) \<longrightarrow>
            sum_list (map percentage (calculateAssetAllocation (\<lambda>x. x) asset_list)) = 100"
    using exact_percentages [OF assms] by simp
  have exact_zero: "sum_list (map current_value asset_list) = 0 \<longrightarrow>
            (\<forall>e \<in> set (calculateAssetAllocation (\<lambda>x. x) asset_list). percentage e = 0)"
    using entry_values(2) [OF assms, of _ "\<lambda>x. x"] by (simp add: foldl_plus)
  have rounded: "(\<forall>a \<in> set asset_list. 0 \<le> current_value a) \<longrightarrow>
            (0 < sum_list (map current_value asset_list) \<longrightarrow>
               100 * (1 - 1 / 2 ^ 53) ^ (length asset_list + 2)
                   / (1 + 1 / 2 ^ 53) ^ length asset_list
                 \<le> sum_list (map percentage (calculateAssetAllocation double asset_list))
               \<and> sum_list (map percentage (calculateAssetAllocation double asset_list))
                 \<le> 100 * (1 + 1 / 2 ^ 53) ^ (length asset_list + 2)
                       / (1 - 1 / 2 ^ 53) ^ length asset_list)
            \<and> (sum_list (map current_value asset_list) = 0 \<longrightarrow>
                 (\<forall>e \<in> set (calculateAssetAllocation double asset_list). percentage e = 0))"
    using double_percentages [OF assms] double_percentages_zero by blast
  have entries: "\<forall>e \<in> set (calculateAssetAllocation fl asset_list).
            val e = foldl (\<lambda>sum a. fl (sum + current_value a)) 0
                      (filter (\<lambda>a. asset_type a = category e) asset_list)
            \<and> percentage e =
                (if 0 < foldl (\<lambda>sum a. fl (sum + current_value a)) 0 asset_list
                 then fl (fl (val e / foldl (\<lambda>sum a. fl (sum + current_value a)) 0 asset_list)
                            * 100)
                 else 0)"
    using entry_values [OF assms] by blast
  from exact exact_zero rounded entries show ?thesis by (intro conjI)
qed

theorem allocation_percentages_witness:
  "set (map asset_type example_assets) \<inter> set Object_prototype_keys = {}
   \<and> list_all (\<lambda>a. 0 \<le> current_value a) example_assets
   \<and> 0 < sum_list (map current_value example_assets)
   \<and> sum_list (map percentage (calculateAssetAllocation (\<lambda>x. x) example_assets)) = 100
   \<and> 100 * (1 - 1 / 2 ^ 53) ^ (length example_assets + 2)
          / (1 + 1 / 2 ^ 53) ^ length example_assets
        \<le> sum_list (map percentage (calculateAssetAllocation double example_assets))
   \<and> sum_list (map percentage (calculateAssetAllocation double example_assets))
        \<le> 100 * (1 + 1 / 2 ^ 53) ^ (length example_assets + 2)
              / (1 - 1 / 2 ^ 53) ^ length example_assets
   \<and> set (map asset_type worthless_assets) \<inter> set Object_prototype_keys = {}
   \<and> sum_list (map current_value worthless_assets) = 0
   \<and> list_all (\<lambda>e. percentage e = 0) (calculateAssetAllocation (\<lambda>x. x) worthless_assets)
   \<and> list_all (\<lambda>e. percentage e = 0) (calculateAssetAllocation double worthless_assets)"
proof -
  have own: "\<forall>a \<in> set example_assets. asset_type a \<notin> set Object_prototype_keys"
    "\<forall>a \<in> set worthless_assets. asset_type a \<notin> set Object_prototype_keys"
    by (simp_all add: example_assets_def worthless_assets_def Object_prototype_keys_def)
  have nn: "\<forall>a \<in> set example_assets. 0 \<le> current_value a"
    "\<forall>a \<in> set worthless_assets. 0 \<le> current_value a"
    by (simp_all add: example_assets_def worthless_assets_def)
  have pos: "0 < sum_list (map current_value example_assets)"
    and zero: "sum_list (map current_value worthless_assets) = 0"
    by (simp_all add: example_assets_def worthless_assets_def)
  have disjoint: "set (map asset_type example_assets) \<inter> set Object_prototype_keys = {}"
    "set (map asset_type worthless_assets) \<inter> set Object_prototype_keys = {}"
    using own by auto
  note worth = allocation_percentages [OF own(1), of double]
  note worthless = allocation_percentages [OF own(2), of double]
  have exact: "sum_list (map percentage (calculateAssetAllocation (\<lambda>x. x) example_assets)) = 100"
    using worth pos by blast
  have rounded:
    "100 * (1 - 1 / 2 ^ 53) ^ (length example_assets + 2)
          / (1 + 1 / 2 ^ 53) ^ length example_assets
        \<le> sum_list (map percentage (calculateAssetAllocation double example_assets))"
    "sum_list (map percentage (calculateAssetAllocation double example_assets))
        \<le> 100 * (1 + 1 / 2 ^ 53) ^ (length example_assets + 2)
              / (1 - 1 / 2 ^ 53) ^ length example_assets"
    using worth nn(1) pos by blast+
  have none: "\<forall>e \<in> set (calculateAssetAllocation (\<lambda>x. x) worthless_assets). percentage e = 0"
    "\<forall>e \<in> set (calculateAssetAllocation double worthless_assets). percentage e = 0"
    using worthless nn(2) zero by blast+
  have lists: "list_all (\<lambda>a. 0 \<le> current_value a) example_assets"
    "list_all (\<lambda>e. percentage e = 0) (calculateAssetAllocation (\<lambda>x. x) worthless_assets)"
    "list_all (\<lambda>e. percentage e = 0) (calculateAssetAllocation double worthless_assets)"
    using nn(1) none by (simp_all only: list_all_iff)
  from disjoint lists pos exact rounded zero show ?thesis
    by (intro conjI)
qed

text \<open>
  The doubles of three equal shares: \<^verbatim>\<open>1 / 3\<close> is \<open>6004799503160661 / 2\<^sup>5\<^sup>4\<close>, and
  a hundred times it is \<open>4691249611844266 / 2\<^sup>4\<^sup>7\<close>, which prints as
  \<^verbatim>\<open>33.33333333333333\<close>.
\<close>

lemma double_two: "double 2 = 2"
  using double_at [of 1 2] by (simp add: round_half_even_def Let_def)

lemma double_three: "double 3 = 3"
  using double_at [of 1 3] by (simp add: round_half_even_def Let_def)

lemma double_third: "double (1 / 3) = 6004799503160661 / 2 ^ 54"
  using double_at [of "- 2" "1 / 3"] by (simp add: round_half_even_def Let_def)

lemma double_third_percent:
  "double (6004799503160661 / 2 ^ 54 * 100) = 4691249611844266 / 2 ^ 47"
  using double_at [of 5 "6004799503160661 / 2 ^ 54 * 100"]
  by (simp add: round_half_even_def Let_def)

lemma equal_thirds_total:
  "foldl (\<lambda>sum asset. double (sum + current_value asset)) 0 equal_thirds = 3"
  by (simp add: equal_thirds_def double_one double_two double_three)

lemma equal_thirds_allocation:
  "foldl (allocation_step double) [] equal_thirds
     = [(''savings'', 1, 1), (''tfsa'', 1, 1), (''rrsp'', 1, 1)]"
  by (simp add: equal_thirds_def allocation_step_def Object_prototype_keys_def Let_def
        double_one)

lemma equal_thirds_entries:
  "Object_entries [(''savings'', 1::real, 1::nat), (''tfsa'', 1, 1), (''rrsp'', 1, 1)]
     = [(''savings'', 1, 1), (''tfsa'', 1, 1), (''rrsp'', 1, 1)]"
  by (simp add: Object_entries_def array_index_def digit_value_def)

lemma equal_thirds_percentage: "double (double (1 / 3) * 100) = 4691249611844266 / 2 ^ 47"
  by (simp only: double_third double_third_percent)

text \<open>
  Claim C6 as it is stated fails in the arithmetic of the code: of three assets worth 1
  each, in three categories, each percentage is the double \<^verbatim>\<open>33.33333333333333\<close>, and
  the three sum to \<open>100 - 2\<^bsup>-46\<^esup>\<close>, which prints as \<^verbatim>\<open>99.99999999999999\<close>.
\<close>

theorem allocation_percentages_counterexample:
  "0 < sum_list (map current_value equal_thirds)
   \<and> map percentage (calculateAssetAllocation double equal_thirds)
       = [4691249611844266 / 2 ^ 47, 4691249611844266 / 2 ^ 47, 4691249611844266 / 2 ^ 47]
   \<and> sum_list (map percentage (calculateAssetAllocation double equal_thirds)) = 100 - 1 / 2 ^ 46
   \<and> sum_list (map percentage (calculateAssetAllocation double equal_thirds)) \<noteq> 100"
proof -
  have "map percentage (calculateAssetAllocation double equal_thirds)
          = [double (double (1 / 3) * 100), double (double (1 / 3) * 100),
             double (double (1 / 3) * 100)]"
    unfolding calculateAssetAllocation_def Let_def equal_thirds_total
      equal_thirds_allocation equal_thirds_entries
    by simp
  then have "map percentage (calculateAssetAllocation double equal_thirds)
       = [4691249611844266 / 2 ^ 47, 4691249611844266 / 2 ^ 47, 4691249611844266 / 2 ^ 47]"
    unfolding equal_thirds_percentage .
  then show ?thesis
    by (simp add: equal_thirds_def)
qed

text \<open>
  No key of the accumulator is the name of a member of \<^verbatim>\<open>Object.prototype\<close>,
  whatever the assets are.
\<close>

lemma allocation_step_own_keys:
  assumes "fst ` set acc \<inter> set Object_prototype_keys = {}"
  shows "fst ` set (allocation_step fl acc a) \<inter> set Object_prototype_keys = {}"
proof (cases "asset_type a \<in> set Object_prototype_keys")
  case True
  then have "allocation_step fl acc a = acc"
    by (simp add: allocation_step_def Let_def)
  with assms show ?thesis by simp
next
  case False
  have "set (map fst (allocation_step fl acc a)) =
          (if asset_type a \<in> set (map fst acc) then set (map fst acc)
           else set (map fst acc @ [asset_type a]))"
    by (simp only: allocation_step_keys [OF False] if_distrib [of set])
  then have "fst ` set (allocation_step fl acc a) \<subseteq> insert (asset_type a) (fst ` set acc)"
    by (simp split: if_splits) blast
  moreover have "insert (asset_type a) (fst ` set acc) \<inter> set Object_prototype_keys = {}"
    using assms False by simp
  ultimately show ?thesis by blast
qed

lemma foldl_allocation_step_own_keys:
  "fst ` set acc \<inter> set Object_prototype_keys = {} \<Longrightarrow>
   fst ` set (foldl (allocation_step fl) acc xs) \<inter> set Object_prototype_keys = {}"
proof (induction xs arbitrary: acc)
  case Nil
  then show ?case by simp
next
  case (Cons a xs)
  from Cons.IH [OF allocation_step_own_keys [OF Cons.prems]] show ?case by simp
qed

lemma getCategoryRiskLevel_claimed:
  "k \<notin> set Object_prototype_keys \<Longrightarrow> getCategoryRiskLevel k = claimed_risk_level k"
  by (auto simp add: getCategoryRiskLevel_def riskMap_def claimed_risk_level_def)

text \<open>
  Claim C7. The tier of a category is read off a fixed table: \<^verbatim>\<open>'savings'\<close> is low,
  \<^verbatim>\<open>'residence'\<close>, \<^verbatim>\<open>'rrsp'\<close> and \<^verbatim>\<open>'tfsa'\<close> are medium, \<^verbatim>\<open>'investment'\<close> is
  high, and every string absent from the table is medium, for every string that is not
  the name of a member of \<^verbatim>\<open>Object.prototype\<close>. The private method is called with
  no other string: of every list of assets, every entry of the allocation has a category
  that is no such name and carries the tier of the claim.
\<close>

theorem getCategoryRiskLevel_lookup:
  "(k \<notin> set Object_prototype_keys \<longrightarrow> getCategoryRiskLevel k = claimed_risk_level k)
   \<and> (\<forall>e \<in> set (calculateAssetAllocation fl asset_list).
         category e \<notin> set Object_prototype_keys
         \<and> risk_level e = claimed_risk_level (category e))"
proof -
  have keys: "fst ` set (foldl (allocation_step fl) [] asset_list)
                \<inter> set Object_prototype_keys = {}"
    by (rule foldl_allocation_step_own_keys) simp
  have "category e \<notin> set Object_prototype_keys
         \<and> risk_level e = claimed_risk_level (category e)"
    if "e \<in> set (calculateAssetAllocation fl asset_list)" for e
  proof -
    from that obtain c d where cd: "(c, d) \<in> set (foldl (allocation_step fl) [] asset_list)"
      and e: "category e = c" "risk_level e = getCategoryRiskLevel c"
      by (auto simp add: calculateAssetAllocation_def Let_def set_Object_entries)
    from cd have "c \<in> fst ` set (foldl (allocation_step fl) [] asset_list)"
      by force
    with keys have "c \<notin> set Object_prototype_keys" by blast
    with e show ?thesis by (simp add: getCategoryRiskLevel_claimed)
  qed
  then show ?thesis by (simp add: getCategoryRiskLevel_claimed)
qed

theorem getCategoryRiskLevel_lookup_witness:
  "''crypto'' \<notin> set Object_prototype_keys
   \<and> map_of riskMap ''crypto'' = None
   \<and> getCategoryRiskLevel ''crypto'' = medium
   \<and> getCategoryRiskLevel ''savings'' = low
   \<and> getCategoryRiskLevel ''residence'' = medium
   \<and> getCategoryRiskLevel ''rrsp'' = medium
   \<and> getCategoryRiskLevel ''tfsa'' = medium
   \<and> getCategoryRiskLevel ''investment'' = high
   \<and> list_all (\<lambda>e. risk_level e = claimed_risk_level (category e))
        (calculateAssetAllocation double example_assets)"
  using getCategoryRiskLevel_lookup [of "''crypto''" double example_assets]
    getCategoryRiskLevel_lookup [of "''savings''" double example_assets]
    getCategoryRiskLevel_lookup [of "''residence''" double example_assets]
    getCategoryRiskLevel_lookup [of "''rrsp''" double example_assets]
    getCategoryRiskLevel_lookup [of "''tfsa''" double example_assets]
    getCategoryRiskLevel_lookup [of "''investment''" double example_assets]
  by (simp add: Object_prototype_keys_def riskMap_def claimed_risk_level_def list_all_iff)

section \<open>The context builder\<close>

text \<open>
  What the builder computes as the monthly cash flow: the amounts of all the income
  sources, active or not, minus the amounts of the expenses.
\<close>

lemma monthly_cash_flow_all:
  "buildClientContext today cid supabase = Inr context \<Longrightarrow>
   single (select_client supabase cid) = Some row \<Longrightarrow>
   monthly_cash_flow (portfolio context) =
     sum_list (map (\<lambda>i. or_zero (IncomeSource.monthly_amount i)) (or_empty (income_sources row)))
     - sum_list (map (\<lambda>e. or_zero (Expense.monthly_amount e)) (or_empty (expenses row)))"
  by (auto simp add: buildClientContext_def Let_def foldl_plus or_empty_def split: option.splits)

text \<open>
  Claim C4 does not hold of the code. For the client whose only income source, of 1000
  a month, is inactive, and who has no expenses, the builder reports a monthly cash flow
  of 1000, where the active income minus the expenses is 0: the builder never reads
  \<^verbatim>\<open>is_active\<close>.
\<close>

theorem inactive_income_counted:
  "(case buildClientContext example_today ''c1'' inactive_income_db of
      Inl e \<Rightarrow> None
    | Inr context \<Rightarrow> Some (monthly_cash_flow (portfolio context))) = Some 1000
   \<and> active_cash_flow inactive_income_client = 0"
  by (simp add: buildClientContext_def inactive_income_db_def inactive_income_client_def
        select_client_def active_cash_flow_def or_zero_def or_empty_def Let_def)

text \<open>The dates of the example, and what the two servers read.\<close>

lemma example_birth_date: "parse_date_only ''1990-05-15'' = Some (1990, 5, 15)"
  by code_simp

lemma toronto_fields:
  "local_fields toronto_clock (now toronto_clock)
     = \<lparr>getFullYear = 2025, getMonth = 4, getDate = 14\<rparr>"
  "local_fields toronto_clock 642729600000
     = \<lparr>getFullYear = 1990, getMonth = 4, getDate = 14\<rparr>"
  by code_simp+

lemma utc_fields:
  "local_fields example_today (now example_today)
     = \<lparr>getFullYear = 2025, getMonth = 4, getDate = 14\<rparr>"
  "local_fields example_today 642729600000
     = \<lparr>getFullYear = 1990, getMonth = 4, getDate = 15\<rparr>"
  by code_simp+

lemma example_ages:
  "Date_parse ''1990-05-15'' = Some 642729600000"
  "calculateAge toronto_clock ''1990-05-15'' = Some 35"
  "calculateAge example_today ''1990-05-15'' = Some 34"
  "claimed_age (2025, 5, 14) (1990, 5, 15) = 34"
  by code_simp+

text \<open>
  Claim C8 does not hold of the code west of UTC. The date of birth
  \<^verbatim>\<open>'1990-05-15'\<close> is parsed as midnight UTC, which in Toronto is the evening of
  14 May, so that \<^verbatim>\<open>birth.getDate()\<close> is 14. On 14 May 2025 in Toronto, the day
  before the birthday, the claim gives the age 34 and the code 35. On a server in UTC
  the code gives 34.
\<close>

theorem calculateAge_west_of_UTC:
  "parse_date_only ''1990-05-15'' = Some (1990, 5, 15)
   \<and> local_fields toronto_clock (now toronto_clock)
       = \<lparr>getFullYear = 2025, getMonth = 4, getDate = 14\<rparr>
   \<and> local_fields toronto_clock 642729600000
       = \<lparr>getFullYear = 1990, getMonth = 4, getDate = 14\<rparr>
   \<and> claimed_age (2025, 5, 14) (1990, 5, 15) = 34
   \<and> calculateAge toronto_clock ''1990-05-15'' = Some 35
   \<and> calculateAge example_today ''1990-05-15'' = Some 34"
  by (simp only: example_birth_date toronto_fields example_ages)

text \<open>
  Claim C10. In every context that the builder returns, \<^verbatim>\<open>total_liabilities\<close> is 0
  and \<^verbatim>\<open>net_worth\<close> is \<^verbatim>\<open>total_assets\<close>, which is the aggregator's
  \<^verbatim>\<open>totalCurrentValue\<close> of the client's assets; and the context is the same
  whatever the table of liabilities holds.
\<close>

theorem context_without_liabilities:
  assumes "buildClientContext today cid supabase = Inr context"
  shows "total_liabilities (portfolio context) = 0
       \<and> net_worth (portfolio context) = total_assets (portfolio context)
       \<and> total_assets (portfolio context)
           = totalCurrentValue (calculatePortfolioTotals (ClientContext.assets context))
       \<and> buildClientContext today cid (supabase\<lparr>liabilities := ls\<rparr>) = Inr context"
  using assms
  by (auto simp add: buildClientContext_def select_client_def Let_def split: option.splits)

theorem context_without_liabilities_witness:
  "\<exists>context.
     buildClientContext example_today ''c2'' (example_db (Some ''advisor-b'')) = Inr context
     \<and> total_liabilities (portfolio context) = 0
     \<and> net_worth (portfolio context) = total_assets (portfolio context)
     \<and> buildClientContext example_today ''c2''
          ((example_db (Some ''advisor-b''))\<lparr>liabilities := []\<rparr>) = Inr context"
proof -
  obtain ctx where
    built: "buildClientContext example_today ''c2'' (example_db (Some ''advisor-b''))
              = Inr ctx"
    by (simp add: buildClientContext_def select_client_def example_db_def
          example_client_def Let_def)
  from context_without_liabilities [OF built, of "[]"] built show ?thesis
    by blast
qed

section \<open>The chat route on a missing client\<close>

text \<open>
  Claim C5. When the fetch of the client returns no row, and in particular when every
  client row with the requested id belongs to another advisor than the requesting one,
  the builder fails with \<^verbatim>\<open>Client not found\<close>, and the chat route, asked about that
  client, never calls the language model.
\<close>

theorem NotFound_without_model_call:
  assumes "single (select_client supabase cid) = None
           \<or> (\<forall>row \<in> set (clients supabase).
                 ClientRow.id' row = cid \<longrightarrow> advisor_id row \<noteq> user supabase)"
  shows "buildClientContext today cid supabase = Inl ClientNotFound
       \<and> (clientId request = Some cid \<longrightarrow>
            filter is_GenerateResponse
              (snd (POST today generateResponse uuid supabase request)) = [])"
proof -
  have "select_client supabase cid = []"
    if "\<forall>row \<in> set (clients supabase).
          ClientRow.id' row = cid \<longrightarrow> advisor_id row \<noteq> user supabase"
    using that by (auto simp add: select_client_def filter_empty_conv)
  then have none: "single (select_client supabase cid) = None"
    using assms by auto
  then have nf: "buildClientContext today cid supabase = Inl ClientNotFound"
    by (simp add: buildClientContext_def)
  have "filter is_GenerateResponse
          (snd (POST today generateResponse uuid supabase request)) = []"
    if "clientId request = Some cid"
    using that nf
    by (auto simp add: POST_def Let_def or_string_def falsy_def split: option.splits)
  with nf show ?thesis by simp
qed

theorem NotFound_without_model_call_witness:
  "clients (example_db (Some ''advisor-a'')) = [example_client]
   \<and> ClientRow.id' example_client = ''c2''
   \<and> advisor_id example_client = Some ''advisor-b''
   \<and> user (example_db (Some ''advisor-a'')) = Some ''advisor-a''
   \<and> buildClientContext example_today ''c2'' (example_db (Some ''advisor-a''))
       = Inl ClientNotFound
   \<and> clientId example_request = Some ''c2''
   \<and> filter is_GenerateResponse
       (snd (POST example_today (\<lambda>context question. Some ''An answer'') ''session-1''
               (example_db (Some ''advisor-a'')) example_request)) = []"
  using NotFound_without_model_call [of "example_db (Some ''advisor-a'')" "''c2''"
          example_today example_request "\<lambda>context question. Some ''An answer''" "''session-1''"]
  by (simp add: example_db_def example_client_def example_request_def)

end
